theory Spec2Isabelle
  imports Main "HOL-Library.Sublist" "HOL-Library.AList" "HOL-Library.Word"
begin


section \<open>Python values\<close>

text \<open>
  A Python \<^verbatim>\<open>str\<close> is a sequence of Unicode code points, so a string is a list of
  code points here. String literals of the source are written with \<open>lit\<close>.
\<close>

type_synonym pystr = "nat list"

definition lit :: "string \<Rightarrow> pystr" where
  "lit s = map of_char s"

text \<open>
  An exception caught by \<^verbatim>\<open>except Exception as e\<close>: its class name and \<^verbatim>\<open>str(e)\<close>.
  What such a handler does not catch (KeyboardInterrupt, SystemExit) comes from outside
  the program and is not modelled.
\<close>

datatype exn = Exception (exn_class: pystr) (exn_str: pystr)

text \<open>A Python \<^verbatim>\<open>float\<close> is its 64 bits; its \<^verbatim>\<open>repr\<close> is a parameter of the model.\<close>

datatype pyfloat = Float64 "64 word"

text \<open>
  The values the JSON decoder produces (\<^verbatim>\<open>json.loads\<close>, and the arguments of a function
  call of the engine). A \<^verbatim>\<open>dict\<close> is an association list in insertion order.
\<close>

datatype json =
    JNull
  | JBool bool
  | JInt int
  | JFloat pyfloat
  | JStr pystr
  | JList "json list"
  | JObj "(pystr \<times> json) list"

fun type_name :: "json \<Rightarrow> pystr" where
  "type_name JNull = lit ''NoneType''"
| "type_name (JBool b) = lit ''bool''"
| "type_name (JInt i) = lit ''int''"
| "type_name (JFloat f) = lit ''float''"
| "type_name (JStr s) = lit ''str''"
| "type_name (JList xs) = lit ''list''"
| "type_name (JObj kvs) = lit ''dict''"

section \<open>str.upper and the in operator\<close>

text \<open>
  \<^verbatim>\<open>str.upper()\<close> maps every code point on its own. On ASCII it turns a..z into A..Z
  and leaves the rest; above ASCII it follows the Unicode tables (one code point can
  become several: the long s becomes S), which are a parameter \<open>U\<close> here.
\<close>

definition ascii_upper :: "nat \<Rightarrow> nat" where
  "ascii_upper c = (if 97 \<le> c \<and> c \<le> 122 then c - 32 else c)"

definition upper :: "(nat \<Rightarrow> pystr) \<Rightarrow> pystr \<Rightarrow> pystr" where
  "upper U s = concat (map (\<lambda>c. if c < 128 then [ascii_upper c] else U c) s)"

text \<open>\<^verbatim>\<open>x in s\<close> on strings: \<open>x\<close> occurs in \<open>s\<close> as a contiguous run.\<close>

definition str_in :: "pystr \<Rightarrow> pystr \<Rightarrow> bool" where
  "str_in x s = sublist x s"

section \<open>json.dumps(rows, default=str)\<close>

text \<open>The values a SQLite cursor returns: None, int, float, str, bytes.\<close>

datatype sqlval =
    SNull
  | SInt int
  | SReal pyfloat
  | SText pystr
  | SBlob "nat list"

text \<open>A \<^verbatim>\<open>sqlite3.Row\<close>: the columns of the result in order, each with its name.\<close>

type_synonym row = "(pystr \<times> sqlval) list"

definition hex_digit :: "nat \<Rightarrow> nat" where
  "hex_digit d = (if d < 10 then 48 + d else 87 + d)"

definition hex2 :: "nat \<Rightarrow> pystr" where
  "hex2 n = [hex_digit (n div 16 mod 16), hex_digit (n mod 16)]"

definition hex4 :: "nat \<Rightarrow> pystr" where
  "hex4 n = hex2 (n div 256) @ hex2 (n mod 256)"

text \<open>
  \<^verbatim>\<open>json.encoder.py_encode_basestring_ascii\<close>: backslash and double quote are escaped,
  everything outside space..~ becomes a backslash, u and four hex digits (a surrogate
  pair above the basic plane), with the short forms for backspace, tab, newline, form
  feed and carriage return. Code points: 92 is the backslash, 34 the double quote,
  117 is u, 98 b, 102 f, 110 n, 114 r, 116 t.
\<close>

definition escape_ascii :: "nat \<Rightarrow> pystr" where
  "escape_ascii c =
     (if c = 92 then [92, 92]
      else if c = 34 then [92, 34]
      else if c = 8 then [92, 98]
      else if c = 12 then [92, 102]
      else if c = 10 then [92, 110]
      else if c = 13 then [92, 114]
      else if c = 9 then [92, 116]
      else if 32 \<le> c \<and> c \<le> 126 then [c]
      else if c < 65536 then [92, 117] @ hex4 c
      else [92, 117] @ hex4 (55296 + (c - 65536) div 1024 mod 1024)
         @ [92, 117] @ hex4 (56320 + (c - 65536) mod 1024))"

definition encode_basestring_ascii :: "pystr \<Rightarrow> pystr" where
  "encode_basestring_ascii s = [34] @ concat (map escape_ascii s) @ [34]"

text \<open>
  \<^verbatim>\<open>str(b)\<close> of a \<^verbatim>\<open>bytes\<close> object, which is its \<^verbatim>\<open>repr\<close>: the letter b (98), a quote
  (39, or 34 when the bytes hold a single quote and no double quote), the bytes with
  the quote and the backslash escaped, tab, newline and carriage return in short form,
  every other byte outside space..~ as backslash, x (120) and two hex digits.
\<close>

definition bytes_quote :: "nat list \<Rightarrow> nat" where
  "bytes_quote b = (if 39 \<in> set b \<and> 34 \<notin> set b then 34 else 39)"

definition bytes_escape :: "nat \<Rightarrow> nat \<Rightarrow> pystr" where
  "bytes_escape q c =
     (if c = q \<or> c = 92 then [92, c]
      else if c = 9 then [92, 116]
      else if c = 10 then [92, 110]
      else if c = 13 then [92, 114]
      else if c < 32 \<or> 127 \<le> c then [92, 120] @ hex2 c
      else [c])"

definition bytes_str :: "nat list \<Rightarrow> pystr" where
  "bytes_str b = [98, bytes_quote b] @ concat (map (bytes_escape (bytes_quote b)) b) @ [bytes_quote b]"

text \<open>\<^verbatim>\<open>str(i)\<close> of an integer: decimal digits, with a minus sign below zero.\<close>

fun nat_digits :: "nat \<Rightarrow> pystr" where
  "nat_digits n = (if n < 10 then [48 + n] else nat_digits (n div 10) @ [48 + n mod 10])"

definition int_str :: "int \<Rightarrow> pystr" where
  "int_str i = (if i < 0 then [45] @ nat_digits (nat (- i)) else nat_digits (nat i))"

text \<open>\<^verbatim>\<open>sep.join(xs)\<close>\<close>

fun join :: "pystr \<Rightarrow> pystr list \<Rightarrow> pystr" where
  "join sep [] = []"
| "join sep [x] = x"
| "join sep (x # y # ys) = x @ sep @ join sep (y # ys)"

text \<open>
  One value of a row under \<^verbatim>\<open>json.dumps(..., default=str)\<close>: None, int, float and str
  are serialized natively; \<^verbatim>\<open>bytes\<close> is not, so \<^verbatim>\<open>default\<close> turns it into \<^verbatim>\<open>str(b)\<close>,
  which is then serialized as a string. \<open>R\<close> is \<^verbatim>\<open>float.__repr__\<close> with the encoder's
  names for NaN and the infinities.
\<close>

fun dumps_value :: "(pyfloat \<Rightarrow> pystr) \<Rightarrow> sqlval \<Rightarrow> pystr" where
  "dumps_value R SNull = lit ''null''"
| "dumps_value R (SInt i) = int_str i"
| "dumps_value R (SReal f) = R f"
| "dumps_value R (SText s) = encode_basestring_ascii s"
| "dumps_value R (SBlob b) = encode_basestring_ascii (bytes_str b)"

definition dumps_item :: "(pyfloat \<Rightarrow> pystr) \<Rightarrow> pystr \<times> sqlval \<Rightarrow> pystr" where
  "dumps_item R kv = encode_basestring_ascii (fst kv) @ lit '': '' @ dumps_value R (snd kv)"

definition dumps_dict :: "(pyfloat \<Rightarrow> pystr) \<Rightarrow> (pystr \<times> sqlval) list \<Rightarrow> pystr" where
  "dumps_dict R d = lit ''{'' @ join (lit '', '') (map (dumps_item R) d) @ lit ''}''"

definition dumps :: "(pyfloat \<Rightarrow> pystr) \<Rightarrow> (pystr \<times> sqlval) list list \<Rightarrow> pystr" where
  "dumps R rows = lit ''['' @ join (lit '', '') (map (dumps_dict R) rows) @ lit '']''"

section \<open>dict(row)\<close>

text \<open>
  \<^verbatim>\<open>dict(row)\<close> on a \<^verbatim>\<open>sqlite3.Row\<close> goes through \<^verbatim>\<open>row.keys()\<close> and \<^verbatim>\<open>row[key]\<close>.
  \<^verbatim>\<open>row[key]\<close> is the value of the first column whose name equals the key, or equals
  it up to ASCII case when both are ASCII. The dict keeps the place of the first
  insertion of a key: \<open>AList.update\<close> replaces the value of a key that is there and
  appends a new key at the end.
\<close>

definition ascii_lower :: "nat \<Rightarrow> nat" where
  "ascii_lower c = (if 65 \<le> c \<and> c \<le> 90 then c + 32 else c)"

definition equal_ignore_case :: "pystr \<Rightarrow> pystr \<Rightarrow> bool" where
  "equal_ignore_case l r =
     (l = r \<or> ((\<forall>c \<in> set l. c < 128) \<and> (\<forall>c \<in> set r. c < 128)
       \<and> map ascii_lower l = map ascii_lower r))"

fun row_getitem :: "row \<Rightarrow> pystr \<Rightarrow> exn + sqlval" where
  "row_getitem [] k = Inl (Exception (lit ''IndexError'') (lit ''No item with that key''))"
| "row_getitem ((n, v) # cs) k = (if equal_ignore_case k n then Inr v else row_getitem cs k)"

fun dict_from :: "row \<Rightarrow> pystr list \<Rightarrow> (pystr \<times> sqlval) list \<Rightarrow> exn + (pystr \<times> sqlval) list" where
  "dict_from r [] d = Inr d"
| "dict_from r (k # ks) d =
     (case row_getitem r k of
        Inl e \<Rightarrow> Inl e
      | Inr v \<Rightarrow> dict_from r ks (AList.update k v d))"

definition dict_of_row :: "row \<Rightarrow> exn + (pystr \<times> sqlval) list" where
  "dict_of_row r = dict_from r (map fst r) []"

text \<open>\<^verbatim>\<open>[dict(row) for row in cursor.fetchall()]\<close>\<close>

fun dicts_of_rows :: "row list \<Rightarrow> exn + (pystr \<times> sqlval) list list" where
  "dicts_of_rows [] = Inr []"
| "dicts_of_rows (r # rs) =
     (case dict_of_row r of
        Inl e \<Rightarrow> Inl e
      | Inr d \<Rightarrow> (case dicts_of_rows rs of Inl e \<Rightarrow> Inl e | Inr ds \<Rightarrow> Inr (d # ds)))"

section \<open>The collaborators and the state\<close>

text \<open>A message sent with \<^verbatim>\<open>chat.send_message\<close>: the question, or a function response.\<close>

datatype message =
    UserText pystr
  | FunctionResponse pystr pystr

text \<open>
  A turn of the engine, with the optional fields of the client library:
  \<^verbatim>\<open>response.candidates[0].content.parts[0].function_call\<close> and \<^verbatim>\<open>response.text\<close>.
\<close>

record function_call =
  fc_name :: "pystr option"
  fc_args :: "(pystr \<times> json) list option"

record part =
  part_text :: "pystr option"
  part_function_call :: "function_call option"

record content =
  parts :: "part list option"

record candidate =
  cand_content :: "content option"

record response =
  candidates :: "candidate list option"
  response_text :: "pystr option"

text \<open>
  A chat session answers the messages sent so far (the last one is the newest) with a
  turn, or raises. It stands for \<^verbatim>\<open>chat.send_message\<close> as a stub: what the client
  library does on its own between the message and the turn is not part of the model.
\<close>

type_synonym chat = "message list \<Rightarrow> exn + response"

text \<open>
  What the program calls and does not implement: the Unicode tables of \<^verbatim>\<open>str.upper\<close>,
  \<^verbatim>\<open>float.__repr__\<close>, SQLite, the engine client, \<^verbatim>\<open>json.loads\<close> and the clock.
  \<open>sqlite_query db q\<close> is \<^verbatim>\<open>sqlite3.connect(DB_PATH)\<close>, \<^verbatim>\<open>conn.execute(q)\<close>,
  \<^verbatim>\<open>cursor.fetchall()\<close> and \<^verbatim>\<open>conn.close()\<close>: the rows or the exception, and the
  datastore afterwards. \<open>sqlite_insert db text tags ts\<close> is the INSERT of \<^verbatim>\<open>remember\<close>
  in its \<^verbatim>\<open>with\<close> block, which commits, or raises and leaves the datastore as it was.
\<close>

record 'db env =
  unicode_upper :: "nat \<Rightarrow> pystr"
  float_repr :: "pyfloat \<Rightarrow> pystr"
  sqlite_query :: "'db \<Rightarrow> pystr \<Rightarrow> (exn + row list) \<times> 'db"
  sqlite_insert :: "'db \<Rightarrow> pystr \<Rightarrow> json \<Rightarrow> pystr \<Rightarrow> exn + 'db"
  generate_content :: "pystr \<Rightarrow> exn + pystr option"
  json_loads :: "pystr \<Rightarrow> exn + json"
  now_timestamp :: pystr
  now_date :: pystr
  chats_create :: "pystr \<Rightarrow> exn + chat"

text \<open>
  What \<^verbatim>\<open>print\<close> writes: line 120 prints the query, line 132 the exception. Writing to
  standard output is taken to succeed.
\<close>

datatype logline =
    RunningSQL json
  | PrintedException exn

text \<open>
  The state: the datastore file and standard output, and two records of what happened,
  kept to state the properties: the statements handed to \<^verbatim>\<open>conn.execute\<close> by
  \<open>execute_sql\<close>, and the arguments \<open>execute_sql\<close> was called with.
\<close>

record 'db world =
  store :: 'db
  stdout :: "logline list"
  db_statements :: "pystr list"
  tool_calls :: "json list"

section \<open>execute_sql\<close>

text \<open>The three texts of lines 60, 66 and 69.\<close>

definition READ_ONLY_ERROR :: pystr where
  "READ_ONLY_ERROR = lit ''Error: Read-only access allowed.''"

definition NO_RESULTS :: pystr where
  "NO_RESULTS = lit ''No results found.''"

definition SQL_ERROR :: "exn \<Rightarrow> pystr" where
  "SQL_ERROR e = lit ''SQL Error: '' @ exn_str e"

definition mutation_keywords :: "pystr list" where
  "mutation_keywords = [lit ''DELETE'', lit ''DROP'', lit ''UPDATE'', lit ''INSERT'']"

definition no_upper :: "json \<Rightarrow> exn" where
  "no_upper v = Exception (lit ''AttributeError'')
     ([39] @ type_name v @ [39] @ lit '' object has no attribute '' @ [39] @ lit ''upper'' @ [39])"

text \<open>
  Line 59, the test
  \<^verbatim>\<open>any(x in sql_query.upper() for x in ["DELETE", "DROP", "UPDATE", "INSERT"])\<close>.
\<close>

definition guard :: "'db env \<Rightarrow> pystr \<Rightarrow> bool" where
  "guard E q = list_ex (\<lambda>x. str_in x (upper (unicode_upper E) q)) mutation_keywords"

text \<open>
  Lines 59 to 67, the body of the \<^verbatim>\<open>try\<close>. An argument that is not a \<^verbatim>\<open>str\<close> has no
  \<^verbatim>\<open>upper\<close>: AttributeError, inside the \<^verbatim>\<open>try\<close>.
\<close>

definition execute_sql_try :: "'db env \<Rightarrow> json \<Rightarrow> 'db world \<Rightarrow> (exn + pystr) \<times> 'db world" where
  "execute_sql_try E sql_query w =
     (case sql_query of
        JStr q \<Rightarrow>
          if guard E q then (Inr READ_ONLY_ERROR, w)
          else
            (case sqlite_query E (store w) q of (res, db') \<Rightarrow>
               let w' = w\<lparr>store := db', db_statements := db_statements w @ [q]\<rparr> in
               (case res of
                  Inl e \<Rightarrow> (Inl e, w')
                | Inr fetched \<Rightarrow>
                    (case dicts_of_rows fetched of
                       Inl e \<Rightarrow> (Inl e, w')
                     | Inr rows \<Rightarrow>
                         if rows = [] then (Inr NO_RESULTS, w')
                         else (Inr (dumps (float_repr E) rows), w'))))
      | _ \<Rightarrow> (Inl (no_upper sql_query), w))"

text \<open>Lines 56 to 69: the \<^verbatim>\<open>try\<close> with its handler. Every call is recorded.\<close>

definition execute_sql :: "'db env \<Rightarrow> json \<Rightarrow> 'db world \<Rightarrow> pystr \<times> 'db world" where
  "execute_sql E sql_query w =
     (case execute_sql_try E sql_query (w\<lparr>tool_calls := tool_calls w @ [sql_query]\<rparr>) of
        (Inl e, w') \<Rightarrow> (SQL_ERROR e, w')
      | (Inr s, w') \<Rightarrow> (s, w'))"

section \<open>The endpoints\<close>

text \<open>\<^verbatim>\<open>HTTPException(status_code, detail)\<close>, what the caller of an endpoint receives.\<close>

datatype http_exception = HTTPException (status_code: nat) (detail: pystr)

record thought_request =
  request_text :: pystr

record query_request =
  question :: pystr

subsection \<open>remember\<close>

text \<open>Line 81, the prompt (39 is the single quote).\<close>

definition remember_prompt :: "pystr \<Rightarrow> pystr" where
  "remember_prompt t =
     lit ''Analyze this thought for a database. Input: '' @ [39] @ t @ [39]
     @ lit ''. Output JSON keys: '' @ [39] @ lit ''tags'' @ [39] @ lit '' (csv strings).''"

text \<open>
  \<^verbatim>\<open>json.loads(resp.text)\<close>: \<^verbatim>\<open>resp.text\<close> is optional, and \<^verbatim>\<open>json.loads(None)\<close> raises
  TypeError.
\<close>

definition loads_text :: "'db env \<Rightarrow> pystr option \<Rightarrow> exn + json" where
  "loads_text E t =
     (case t of
        None \<Rightarrow> Inl (Exception (lit ''TypeError'')
          (lit ''the JSON object must be str, bytes or bytearray, not NoneType''))
      | Some s \<Rightarrow> json_loads E s)"

text \<open>
  \<^verbatim>\<open>doc.get(key, default)\<close>: the value under the key, the default when the dict has no
  such key; only a dict has \<^verbatim>\<open>get\<close>.
\<close>

definition no_get :: "json \<Rightarrow> exn" where
  "no_get v = Exception (lit ''AttributeError'')
     ([39] @ type_name v @ [39] @ lit '' object has no attribute '' @ [39] @ lit ''get'' @ [39])"

definition get_default :: "json \<Rightarrow> pystr \<Rightarrow> json \<Rightarrow> exn + json" where
  "get_default doc key dflt =
     (case doc of
        JObj kvs \<Rightarrow> (case map_of kvs key of None \<Rightarrow> Inr dflt | Some v \<Rightarrow> Inr v)
      | _ \<Rightarrow> Inl (no_get doc))"

text \<open>What \<^verbatim>\<open>remember\<close> returns: \<^verbatim>\<open>{"status": "saved", "tags": tags}\<close>.\<close>

datatype remember_result = Saved (saved_tags: json)

text \<open>Lines 80 to 94, the body of the \<^verbatim>\<open>try\<close>.\<close>

definition remember_try ::
  "'db env \<Rightarrow> thought_request \<Rightarrow> 'db world \<Rightarrow> (exn + remember_result) \<times> 'db world" where
  "remember_try E request w =
     (case generate_content E (remember_prompt (request_text request)) of
        Inl e \<Rightarrow> (Inl e, w)
      | Inr resp_text \<Rightarrow>
          (case loads_text E resp_text of
             Inl e \<Rightarrow> (Inl e, w)
           | Inr doc \<Rightarrow>
               (case get_default doc (lit ''tags'') (JStr (lit ''general'')) of
                  Inl e \<Rightarrow> (Inl e, w)
                | Inr tags \<Rightarrow>
                    (case sqlite_insert E (store w) (request_text request) tags (now_timestamp E) of
                       Inl e \<Rightarrow> (Inl e, w)
                     | Inr db' \<Rightarrow> (Inr (Saved tags), w\<lparr>store := db'\<rparr>)))))"

text \<open>Lines 78 to 96: the handler turns every exception into status 500 with \<^verbatim>\<open>str(e)\<close>.\<close>

definition remember ::
  "'db env \<Rightarrow> thought_request \<Rightarrow> 'db world \<Rightarrow> (http_exception + remember_result) \<times> 'db world" where
  "remember E request w =
     (case remember_try E request w of
        (Inl e, w') \<Rightarrow> (Inl (HTTPException 500 (exn_str e)), w')
      | (Inr r, w') \<Rightarrow> (Inr r, w'))"

subsection \<open>remind\<close>

text \<open>Lines 102 to 107, the system instruction (10 is the newline, 39 the single quote).\<close>

definition sys_instruct :: "pystr \<Rightarrow> pystr" where
  "sys_instruct today =
     [10] @ lit ''        You are '' @ [39] @ lit ''DontForget'' @ [39]
       @ lit '', a memory assistant. Date: '' @ today @ lit ''.'' @ [10]
     @ lit ''        Database: '' @ [39] @ lit ''memory'' @ [39]
       @ lit '' table (text, tags, timestamp).'' @ [10]
     @ lit ''        Goal: Answer user question by writing/executing SQL using '' @ [39]
       @ lit ''execute_sql'' @ [39] @ lit '' tool.'' @ [10]
     @ lit ''        Use FTS5 matching or LIKE for dates. Self-correct if SQL fails.'' @ [10]
     @ lit ''        ''"

text \<open>
  \<^verbatim>\<open>response.candidates[0].content.parts[0]\<close>: indexing None raises TypeError, an empty
  list IndexError, and None has no attribute \<^verbatim>\<open>parts\<close>.
\<close>

definition not_subscriptable :: exn where
  "not_subscriptable = Exception (lit ''TypeError'')
     ([39] @ lit ''NoneType'' @ [39] @ lit '' object is not subscriptable'')"

definition index_out_of_range :: exn where
  "index_out_of_range = Exception (lit ''IndexError'') (lit ''list index out of range'')"

definition no_parts :: exn where
  "no_parts = Exception (lit ''AttributeError'')
     ([39] @ lit ''NoneType'' @ [39] @ lit '' object has no attribute '' @ [39] @ lit ''parts'' @ [39])"

definition first_part :: "response \<Rightarrow> exn + part" where
  "first_part response =
     (case candidates response of
        None \<Rightarrow> Inl not_subscriptable
      | Some [] \<Rightarrow> Inl index_out_of_range
      | Some (c # cs) \<Rightarrow>
          (case cand_content c of
             None \<Rightarrow> Inl no_parts
           | Some ct \<Rightarrow>
               (case parts ct of
                  None \<Rightarrow> Inl not_subscriptable
                | Some [] \<Rightarrow> Inl index_out_of_range
                | Some (p # ps) \<Rightarrow> Inr p)))"

text \<open>
  Line 119, \<^verbatim>\<open>part.function_call.args["sql_query"]\<close>: \<^verbatim>\<open>args\<close> is optional, and a dict
  without the key raises KeyError, whose \<^verbatim>\<open>str\<close> is the \<^verbatim>\<open>repr\<close> of the key.
\<close>

definition key_error :: exn where
  "key_error = Exception (lit ''KeyError'') ([39] @ lit ''sql_query'' @ [39])"

definition sql_query_arg :: "function_call \<Rightarrow> exn + json" where
  "sql_query_arg fc =
     (case fc_args fc of
        None \<Rightarrow> Inl not_subscriptable
      | Some args \<Rightarrow>
          (case map_of args (lit ''sql_query'') of
             None \<Rightarrow> Inl key_error
           | Some v \<Rightarrow> Inr v))"

text \<open>
  Lines 117 to 119, what the loop reads of a turn: an exception, no function call in the
  first part (\<open>Inr None\<close>, the loop ends), or the query of the function call of the first
  part.
\<close>

definition turn_query :: "response \<Rightarrow> exn + json option" where
  "turn_query response =
     (case first_part response of
        Inl e \<Rightarrow> Inl e
      | Inr p \<Rightarrow>
          (case part_function_call p of
             None \<Rightarrow> Inr None
           | Some fc \<Rightarrow> (case sql_query_arg fc of Inl e \<Rightarrow> Inl e | Inr v \<Rightarrow> Inr (Some v))))"

text \<open>What \<^verbatim>\<open>remind\<close> returns: \<^verbatim>\<open>{"answer": response.text}\<close>.\<close>

datatype remind_result = Answer (answer: "pystr option")

text \<open>
  Lines 117 to 130, the loop, from a turn \<open>response\<close> that answered the messages
  \<open>history\<close>. The loop has no bound: where it never ends, the value is \<open>None\<close>.
\<close>

partial_function (option) react_loop ::
  "'db env \<Rightarrow> chat \<Rightarrow> message list \<Rightarrow> response \<Rightarrow> 'db world
     \<Rightarrow> ((exn + remind_result) \<times> 'db world) option" where
  "react_loop E chat history response w =
     (case turn_query response of
        Inl e \<Rightarrow> Some (Inl e, w)
      | Inr None \<Rightarrow> Some (Inr (Answer (response_text response)), w)
      | Inr (Some query) \<Rightarrow>
          (case execute_sql E query (w\<lparr>stdout := stdout w @ [RunningSQL query]\<rparr>) of
             (result, w') \<Rightarrow>
               (case chat (history @ [FunctionResponse (lit ''execute_sql'') result]) of
                  Inl e \<Rightarrow> Some (Inl e, w')
                | Inr response' \<Rightarrow>
                    react_loop E chat (history @ [FunctionResponse (lit ''execute_sql'') result])
                      response' w')))"

declare react_loop.simps [code]

text \<open>
  Lines 120 to 122 for a list of queries, one after the other: each query is printed and
  executed from the state the one before left. The results in order, and the state
  after the last.
\<close>

fun tool_results :: "'db env \<Rightarrow> json list \<Rightarrow> 'db world \<Rightarrow> pystr list \<times> 'db world" where
  "tool_results E [] w = ([], w)"
| "tool_results E (query # queries) w =
     (case execute_sql E query (w\<lparr>stdout := stdout w @ [RunningSQL query]\<rparr>) of
        (result, w') \<Rightarrow>
          (case tool_results E queries w' of
             (results, w'') \<Rightarrow> (result # results, w'')))"

text \<open>
  What \<^verbatim>\<open>chat.send_message\<close> has been sent once the question (line 114) and the given
  results (lines 124 to 128) went out.
\<close>

definition sent :: "pystr \<Rightarrow> pystr list \<Rightarrow> message list" where
  "sent q results = UserText q # map (FunctionResponse (lit ''execute_sql'')) results"

text \<open>Lines 101 to 130, the body of the \<^verbatim>\<open>try\<close>.\<close>

definition remind_try ::
  "'db env \<Rightarrow> query_request \<Rightarrow> 'db world \<Rightarrow> ((exn + remind_result) \<times> 'db world) option" where
  "remind_try E request w =
     (case chats_create E (sys_instruct (now_date E)) of
        Inl e \<Rightarrow> Some (Inl e, w)
      | Inr chat \<Rightarrow>
          (case chat [UserText (question request)] of
             Inl e \<Rightarrow> Some (Inl e, w)
           | Inr response \<Rightarrow> react_loop E chat [UserText (question request)] response w))"

text \<open>
  Lines 99 to 133: the handler prints the exception and raises status 500 with a fixed
  detail.
\<close>

definition RETRIEVAL_FAILED :: http_exception where
  "RETRIEVAL_FAILED = HTTPException 500 (lit ''Memory retrieval failed.'')"

definition remind ::
  "'db env \<Rightarrow> query_request \<Rightarrow> 'db world
     \<Rightarrow> ((http_exception + remind_result) \<times> 'db world) option" where
  "remind E request w =
     (case remind_try E request w of
        None \<Rightarrow> None
      | Some (Inl e, w') \<Rightarrow>
          Some (Inl RETRIEVAL_FAILED, w'\<lparr>stdout := stdout w' @ [PrintedException e]\<rparr>)
      | Some (Inr a, w') \<Rightarrow> Some (Inr a, w'))"

section \<open>Stand-ins for the collaborators\<close>

text \<open>
  Concrete collaborators for the closed instances below. The datastore is the list of
  the notes; the query interface knows five statements and raises on every other one.
\<close>

type_synonym notebook = "(pystr \<times> json \<times> pystr) list"

definition sql_of_json :: "json \<Rightarrow> sqlval" where
  "sql_of_json v = (case v of JStr s \<Rightarrow> SText s | JInt i \<Rightarrow> SInt i | _ \<Rightarrow> SNull)"

definition note_row :: "pystr \<times> json \<times> pystr \<Rightarrow> row" where
  "note_row n = (case n of (t, g, ts) \<Rightarrow>
     [(lit ''text'', SText t), (lit ''tags'', sql_of_json g), (lit ''timestamp'', SText ts)])"

definition demo_query :: "notebook \<Rightarrow> pystr \<Rightarrow> (exn + row list) \<times> notebook" where
  "demo_query db q =
     (if q = lit ''SELECT * FROM memory'' then (Inr (map note_row db), db)
      else if q = lit ''SELECT text FROM memory''
        then (Inr (map (\<lambda>n. [(lit ''text'', SText (fst n))]) db), db)
      else if q = lit ''SELECT * FROM memory WHERE text LIKE '%update%' LIMIT 5''
        then (Inr (map note_row (filter (\<lambda>n. str_in (lit ''update'') (fst n)) db)), db)
      else if q = lit ''SELECT * FROM memory WHERE memory MATCH 'dentist' LIMIT 5''
        then (Inr (map note_row (filter (\<lambda>n. str_in (lit ''dentist'') (map ascii_lower (fst n))) db)), db)
      else if q = lit ''CREATE TABLE t (a)'' then (Inr [], db)
      else (Inl (Exception (lit ''OperationalError'') (lit ''syntax error'')), db))"

definition demo_insert :: "notebook \<Rightarrow> pystr \<Rightarrow> json \<Rightarrow> pystr \<Rightarrow> exn + notebook" where
  "demo_insert db t g ts =
     (case g of
        JList xs \<Rightarrow> Inl (Exception (lit ''ProgrammingError'') (lit ''type list is not supported''))
      | JObj kvs \<Rightarrow> Inl (Exception (lit ''ProgrammingError'') (lit ''type dict is not supported''))
      | _ \<Rightarrow> Inr (db @ [(t, g, ts)]))"

definition demo_env :: "notebook env" where
  "demo_env = \<lparr>
     unicode_upper = (\<lambda>c. [c]),
     float_repr = (\<lambda>f. lit ''0.0''),
     sqlite_query = demo_query,
     sqlite_insert = demo_insert,
     generate_content = (\<lambda>p. Inl (Exception (lit ''ServerError'') (lit ''503 UNAVAILABLE''))),
     json_loads = (\<lambda>s. Inl (Exception (lit ''JSONDecodeError'') (lit ''Expecting value''))),
     now_timestamp = lit ''2026-01-05 09:30:00'',
     now_date = lit ''2026-01-05'',
     chats_create = (\<lambda>s. Inl (Exception (lit ''ServerError'') (lit ''503 UNAVAILABLE''))) \<rparr>"

text \<open>
  The columns of the table \<^verbatim>\<open>memory\<close> that the INSERT of \<^verbatim>\<open>remember\<close> fills (line 91).
\<close>

definition store_columns :: "pystr list" where
  "store_columns = [lit ''text'', lit ''tags'', lit ''timestamp'']"

definition demo_world :: "notebook \<Rightarrow> notebook world" where
  "demo_world db = \<lparr> store = db, stdout = [], db_statements = [], tool_calls = [] \<rparr>"

definition dentist :: "pystr \<times> json \<times> pystr" where
  "dentist = (lit ''Dentist appointment next Tuesday'', JStr (lit ''health,appointment''),
     lit ''2026-01-04 18:00:00'')"

definition resume :: "pystr \<times> json \<times> pystr" where
  "resume = (lit ''update the resume'', JStr (lit ''work''), lit ''2026-01-04 19:00:00'')"

text \<open>A classifier that answers with the text \<open>s\<close>, which parses to \<open>doc\<close>.\<close>

definition classifier_env :: "pystr \<Rightarrow> json \<Rightarrow> notebook env" where
  "classifier_env s doc = demo_env\<lparr>
     generate_content := (\<lambda>p. Inr (Some s)),
     json_loads := (\<lambda>t. if t = s then Inr doc
        else Inl (Exception (lit ''JSONDecodeError'') (lit ''Expecting value''))) \<rparr>"

text \<open>A classifier that answers with prose instead of JSON.\<close>

definition mute_env :: "notebook env" where
  "mute_env = demo_env\<lparr> generate_content := (\<lambda>p. Inr (Some (lit ''Sorry, I cannot help.''))) \<rparr>"

text \<open>
  Turns of the engine, built from their parts: a part that calls \<^verbatim>\<open>execute_sql\<close> with
  the given arguments, a part of text, a turn with one candidate, and the turns whose
  only part is a call with a query or a text.
\<close>

definition call_part :: "(pystr \<times> json) list \<Rightarrow> part" where
  "call_part args = \<lparr> part_text = None,
     part_function_call = Some \<lparr> fc_name = Some (lit ''execute_sql''), fc_args = Some args \<rparr> \<rparr>"

definition text_part :: "pystr \<Rightarrow> part" where
  "text_part s = \<lparr> part_text = Some s, part_function_call = None \<rparr>"

definition turn :: "part list \<Rightarrow> pystr option \<Rightarrow> response" where
  "turn ps t = \<lparr> candidates = Some [\<lparr> cand_content = Some \<lparr> parts = Some ps \<rparr> \<rparr>],
     response_text = t \<rparr>"

definition call_turn :: "pystr \<Rightarrow> response" where
  "call_turn q = turn [call_part [(lit ''sql_query'', JStr q)]] None"

definition text_turn :: "pystr \<Rightarrow> response" where
  "text_turn s = turn [text_part s] (Some s)"

text \<open>A chat that answers its n-th message with the n-th turn of a script.\<close>

definition scripted :: "response list \<Rightarrow> chat" where
  "scripted rs h =
     (if 1 \<le> length h \<and> length h \<le> length rs then Inr (rs ! (length h - 1))
      else Inl (Exception (lit ''ServerError'') (lit ''503 UNAVAILABLE'')))"

definition chat_env :: "response list \<Rightarrow> notebook env" where
  "chat_env rs = demo_env\<lparr> chats_create := (\<lambda>s. Inr (scripted rs)) \<rparr>"

text \<open>
  The engine of the scenario of the specification: a query for the dentist, then the
  answer.
\<close>

definition dentist_script :: "response list" where
  "dentist_script =
     [call_turn (lit ''SELECT * FROM memory WHERE memory MATCH 'dentist' LIMIT 5''),
      text_turn (lit ''You have a dentist appointment next Tuesday.'')]"

definition dentist_question :: query_request where
  "dentist_question = \<lparr> question = lit ''What did I say about the dentist?'' \<rparr>"

text \<open>
  An engine that answers by what the last message is: a question gets a query, a
  function response gets its result back as text.
\<close>

definition adaptive :: chat where
  "adaptive h =
     (case rev h of
        [] \<Rightarrow> Inl (Exception (lit ''ValueError'') (lit ''no message''))
      | UserText q # earlier \<Rightarrow> Inr (call_turn (lit ''SELECT text FROM memory''))
      | FunctionResponse name result # earlier \<Rightarrow> Inr (text_turn result))"

definition adaptive_env :: "notebook env" where
  "adaptive_env = demo_env\<lparr> chats_create := (\<lambda>s. Inr adaptive) \<rparr>"

section \<open>Facts about the guard and the serializer\<close>

lemma upper_append: "upper U (a @ b) = upper U a @ upper U b"
  by (simp add: upper_def)

lemma upper_ascii: "\<forall>c \<in> set t. c < 128 \<Longrightarrow> upper U t = map ascii_upper t"
  by (induction t) (simp_all add: upper_def)

lemma ascii_upper_below: "ascii_upper c < 128 \<Longrightarrow> c < 128"
  by (simp add: ascii_upper_def split: if_splits)

lemma keyword_ascii: "k \<in> set mutation_keywords \<Longrightarrow> c \<in> set k \<Longrightarrow> c < 128"
  by (auto simp: mutation_keywords_def lit_def)

lemma guard_iff: "guard E q \<longleftrightarrow> (\<exists>k \<in> set mutation_keywords. sublist k (upper (unicode_upper E) q))"
  by (simp add: guard_def list_ex_iff str_in_def)

lemma guard_variant:
  assumes k: "k \<in> set mutation_keywords" and t: "map ascii_upper t = k"
  shows "guard E (pre @ t @ post)"
proof -
  have "c < 128" if "c \<in> set t" for c
  proof -
    from that t have "ascii_upper c \<in> set k" by auto
    with k have "ascii_upper c < 128" by (rule keyword_ascii)
    then show ?thesis by (rule ascii_upper_below)
  qed
  then have "upper (unicode_upper E) t = k"
    using t by (simp add: upper_ascii)
  then have "upper (unicode_upper E) (pre @ t @ post)
      = upper (unicode_upper E) pre @ k @ upper (unicode_upper E) post"
    by (simp add: upper_append)
  then have "sublist k (upper (unicode_upper E) (pre @ t @ post))"
    by (auto simp: sublist_def)
  with k show ?thesis by (auto simp: guard_iff)
qed

lemma execute_sql_refused:
  "guard E q \<Longrightarrow>
   execute_sql E (JStr q) w = (READ_ONLY_ERROR, w\<lparr>tool_calls := tool_calls w @ [JStr q]\<rparr>)"
  by (simp add: execute_sql_def execute_sql_try_def)

lemma execute_sql_forwarded:
  "\<not> guard E q \<Longrightarrow> sqlite_query E (store w) q = (res, db') \<Longrightarrow>
   snd (execute_sql E (JStr q) w)
     = w\<lparr>store := db', db_statements := db_statements w @ [q], tool_calls := tool_calls w @ [JStr q]\<rparr>"
  by (simp add: execute_sql_def execute_sql_try_def Let_def split: sum.splits)

lemma execute_sql_raised:
  "\<not> guard E q \<Longrightarrow> sqlite_query E (store w) q = (Inl e, db') \<Longrightarrow>
   fst (execute_sql E (JStr q) w) = SQL_ERROR e"
  by (simp add: execute_sql_def execute_sql_try_def Let_def)

lemma equal_ignore_case_refl: "equal_ignore_case k k"
  by (simp add: equal_ignore_case_def)

lemma row_getitem_own: "k \<in> fst ` set r \<Longrightarrow> \<exists>v. row_getitem r k = Inr v"
proof (induction r)
  case Nil
  then show ?case by simp
next
  case (Cons c r)
  obtain n v where c: "c = (n, v)" by (cases c)
  show ?case
  proof (cases "equal_ignore_case k n")
    case True
    with c show ?thesis by simp
  next
    case False
    then have "k \<noteq> n" using equal_ignore_case_refl by auto
    with Cons.prems c have "k \<in> fst ` set r" by auto
    with Cons.IH False c show ?thesis by simp
  qed
qed

lemma dict_from_ok:
  "set ks \<subseteq> fst ` set r \<Longrightarrow>
   \<exists>d'. dict_from r ks d = Inr d'
      \<and> fst ` set d' = fst ` set d \<union> set ks
      \<and> (distinct (map fst d) \<longrightarrow> distinct (map fst d'))
      \<and> (\<forall>k. map_of d' k = (if k \<in> set ks then (case row_getitem r k of Inr v \<Rightarrow> Some v | Inl e \<Rightarrow> None) else map_of d k))"
proof (induction ks arbitrary: d)
  case Nil
  then show ?case by simp
next
  case (Cons k ks)
  then obtain v where v: "row_getitem r k = Inr v"
    using row_getitem_own [of k r] by auto
  from Cons.prems have "set ks \<subseteq> fst ` set r" by simp
  from Cons.IH [OF this, of "AList.update k v d"]
  obtain d' where d': "dict_from r ks (AList.update k v d) = Inr d'"
      "fst ` set d' = fst ` set (AList.update k v d) \<union> set ks"
      "distinct (map fst (AList.update k v d)) \<longrightarrow> distinct (map fst d')"
      "\<forall>k'. map_of d' k' = (if k' \<in> set ks then (case row_getitem r k' of Inr v \<Rightarrow> Some v | Inl e \<Rightarrow> None)
           else map_of (AList.update k v d) k')"
    by blast
  show ?case
  proof (intro exI conjI)
    show "dict_from r (k # ks) d = Inr d'" using v d'(1) by simp
    show "fst ` set d' = fst ` set d \<union> set (k # ks)"
      using d'(2) by (auto simp: AList.dom_update)
    show "distinct (map fst d) \<longrightarrow> distinct (map fst d')"
      using d'(3) by (simp add: AList.distinct_update)
    show "\<forall>k'. map_of d' k' = (if k' \<in> set (k # ks) then (case row_getitem r k' of Inr v \<Rightarrow> Some v | Inl e \<Rightarrow> None)
           else map_of d k')"
      using d'(4) v by (auto simp: AList.update_conv')
  qed
qed

lemma dict_of_row_ok:
  "\<exists>d. dict_of_row r = Inr d \<and> fst ` set d = fst ` set r \<and> distinct (map fst d)
      \<and> (\<forall>k \<in> fst ` set r. \<exists>v. row_getitem r k = Inr v \<and> map_of d k = Some v)"
proof -
  have "set (map fst r) \<subseteq> fst ` set r" by simp
  from dict_from_ok [OF this, where d = "[]"]
  obtain d where d: "dict_from r (map fst r) [] = Inr d"
    "fst ` set d = set (map fst r)"
    "distinct (map fst d)"
    "\<forall>k. map_of d k = (if k \<in> set (map fst r) then (case row_getitem r k of Inr v \<Rightarrow> Some v | Inl e \<Rightarrow> None)
           else None)"
    by auto
  have "\<exists>v. row_getitem r k = Inr v \<and> map_of d k = Some v" if "k \<in> fst ` set r" for k
  proof -
    from that obtain v where "row_getitem r k = Inr v" using row_getitem_own by blast
    with d(4) that show ?thesis by auto
  qed
  with d show ?thesis by (auto simp: dict_of_row_def)
qed


lemma dicts_of_rows_ok:
  "\<exists>rows. dicts_of_rows fetched = Inr rows \<and> list_all2 (\<lambda>r d. dict_of_row r = Inr d) fetched rows"
proof (induction fetched)
  case Nil
  then show ?case by simp
next
  case (Cons r fetched)
  obtain d where "dict_of_row r = Inr d" using dict_of_row_ok [of r] by blast
  with Cons show ?case by auto
qed

lemma hd_dumps: "hd (dumps R rows) = 91"
  by (simp add: dumps_def lit_def)

lemma hd_READ_ONLY_ERROR: "hd READ_ONLY_ERROR = 69"
  by (simp add: READ_ONLY_ERROR_def lit_def)

lemma hd_NO_RESULTS: "hd NO_RESULTS = 78"
  by (simp add: NO_RESULTS_def lit_def)

lemma hd_SQL_ERROR: "hd (SQL_ERROR e) = 83"
  by (simp add: SQL_ERROR_def lit_def)

lemmas hd_results = hd_dumps hd_READ_ONLY_ERROR hd_NO_RESULTS hd_SQL_ERROR

lemma differ_by_hd: "hd a \<noteq> hd b \<Longrightarrow> a \<noteq> b"
  by auto

lemma results_differ:
  "SQL_ERROR e \<noteq> READ_ONLY_ERROR" "NO_RESULTS \<noteq> READ_ONLY_ERROR"
  "dumps R rows \<noteq> READ_ONLY_ERROR" "NO_RESULTS \<noteq> SQL_ERROR e"
  "NO_RESULTS \<noteq> dumps R rows" "dumps R rows \<noteq> SQL_ERROR e"
  by (rule differ_by_hd, simp add: hd_results)+

lemma set_join: "x \<in> set xs \<Longrightarrow> set x \<subseteq> set (join sep xs)"
  by (induction sep xs rule: join.induct) auto

lemma key_in_dumps:
  assumes "d \<in> set rows" "k \<in> fst ` set d" "c \<in> set k" "escape_ascii c = [c]"
  shows "c \<in> set (dumps R rows)"
proof -
  from assms(2) obtain v where kv: "(k, v) \<in> set d" by auto
  from assms(3,4) have "c \<in> set (encode_basestring_ascii k)"
    by (force simp: encode_basestring_ascii_def)
  then have "c \<in> set (dumps_item R (k, v))" by (simp add: dumps_item_def)
  moreover from kv have "set (dumps_item R (k, v)) \<subseteq> set (join (lit '', '') (map (dumps_item R) d))"
    by (intro set_join) auto
  ultimately have "c \<in> set (dumps_dict R d)" by (auto simp: dumps_dict_def)
  moreover from assms(1) have "set (dumps_dict R d) \<subseteq> set (join (lit '', '') (map (dumps_dict R) rows))"
    by (intro set_join) auto
  ultimately show ?thesis by (auto simp: dumps_def)
qed

lemma execute_sql_rows:
  "\<not> guard E q \<Longrightarrow> sqlite_query E (store w) q = (Inr fetched, db') \<Longrightarrow>
   dicts_of_rows fetched = Inr rows \<Longrightarrow>
   fst (execute_sql E (JStr q) w) = (if rows = [] then NO_RESULTS else dumps (float_repr E) rows)"
  by (simp add: execute_sql_def execute_sql_try_def Let_def)

lemma execute_sql_not_str:
  "\<forall>q. v \<noteq> JStr q \<Longrightarrow> execute_sql E v w = (SQL_ERROR (no_upper v), w\<lparr>tool_calls := tool_calls w @ [v]\<rparr>)"
  by (cases v) (simp_all add: execute_sql_def execute_sql_try_def)



lemma guard_ascii:
  "\<forall>c \<in> set q. c < 128 \<Longrightarrow>
   guard E q = list_ex (\<lambda>k. sublist k (map ascii_upper q)) mutation_keywords"
  by (simp add: guard_def str_in_def upper_ascii)

lemma like_updated_refused:
  "guard E (lit ''SELECT * FROM memory WHERE text LIKE '%updated%' LIMIT 5'')"
proof -
  have "\<forall>c \<in> set (lit ''SELECT * FROM memory WHERE text LIKE '%updated%' LIMIT 5''). c < 128"
    by code_simp
  moreover have "list_ex (\<lambda>k. sublist k (map ascii_upper
      (lit ''SELECT * FROM memory WHERE text LIKE '%updated%' LIMIT 5''))) mutation_keywords"
    by code_simp
  ultimately show ?thesis by (simp add: guard_ascii)
qed

lemma replace_passes: "\<not> guard E (lit ''REPLACE INTO memory VALUES (1, 2, 3)'')"
proof -
  have "\<forall>c \<in> set (lit ''REPLACE INTO memory VALUES (1, 2, 3)''). c < 128"
    by code_simp
  moreover have "\<not> list_ex (\<lambda>k. sublist k (map ascii_upper
      (lit ''REPLACE INTO memory VALUES (1, 2, 3)''))) mutation_keywords"
    by code_simp
  ultimately show ?thesis by (simp add: guard_ascii)
qed

lemma alter_passes: "\<not> guard E (lit ''ALTER TABLE memory RENAME TO m'')"
proof -
  have "\<forall>c \<in> set (lit ''ALTER TABLE memory RENAME TO m''). c < 128"
    by code_simp
  moreover have "\<not> list_ex (\<lambda>k. sublist k (map ascii_upper
      (lit ''ALTER TABLE memory RENAME TO m''))) mutation_keywords"
    by code_simp
  ultimately show ?thesis by (simp add: guard_ascii)
qed

lemma create_passes: "\<not> guard E (lit ''CREATE TABLE t (a)'')"
proof -
  have "\<forall>c \<in> set (lit ''CREATE TABLE t (a)''). c < 128"
    by code_simp
  moreover have "\<not> list_ex (\<lambda>k. sublist k (map ascii_upper
      (lit ''CREATE TABLE t (a)''))) mutation_keywords"
    by code_simp
  ultimately show ?thesis by (simp add: guard_ascii)
qed

lemma db_statements_forwarded:
  "\<not> guard E q \<Longrightarrow> db_statements (snd (execute_sql E (JStr q) w)) = db_statements w @ [q]"
proof -
  assume g: "\<not> guard E q"
  obtain res db' where "sqlite_query E (store w) q = (res, db')"
    by (cases "sqlite_query E (store w) q")
  from execute_sql_forwarded [OF g this] show ?thesis by simp
qed


lemma refusal_iff_substring:
  "(fst (execute_sql E (JStr q) w) = READ_ONLY_ERROR
      \<longleftrightarrow> (\<exists>k \<in> set mutation_keywords. sublist k (upper (unicode_upper E) q)))
   \<and> ((\<exists>k \<in> set mutation_keywords. sublist k (upper (unicode_upper E) q)) \<longrightarrow>
        db_statements (snd (execute_sql E (JStr q) w)) = db_statements w
        \<and> store (snd (execute_sql E (JStr q) w)) = store w)
   \<and> (\<not> (\<exists>k \<in> set mutation_keywords. sublist k (upper (unicode_upper E) q)) \<longrightarrow>
        db_statements (snd (execute_sql E (JStr q) w)) = db_statements w @ [q]
        \<and> store (snd (execute_sql E (JStr q) w)) = snd (sqlite_query E (store w) q))"
proof (cases "guard E q")
  case True
  then show ?thesis by (simp add: execute_sql_refused flip: guard_iff)
next
  case False
  obtain res db' where r: "sqlite_query E (store w) q = (res, db')" by (cases "sqlite_query E (store w) q")
  have "fst (execute_sql E (JStr q) w) \<noteq> READ_ONLY_ERROR"
  proof (cases res)
    case (Inl e)
    with False r have "fst (execute_sql E (JStr q) w) = SQL_ERROR e" by (simp add: execute_sql_raised)
    then show ?thesis by (simp add: results_differ)
  next
    case (Inr fetched)
    obtain rows where "dicts_of_rows fetched = Inr rows" using dicts_of_rows_ok by blast
    with False r Inr have "fst (execute_sql E (JStr q) w) = (if rows = [] then NO_RESULTS else dumps (float_repr E) rows)"
      by (simp add: execute_sql_rows)
    then show ?thesis by (simp add: results_differ)
  qed
  with False r show ?thesis
    by (simp add: execute_sql_forwarded [OF False r] flip: guard_iff)
qed

section \<open>Facts about the endpoints\<close>

lemma get_default_absent: "k \<notin> fst ` set kvs \<Longrightarrow> get_default (JObj kvs) k d = Inr d"
proof -
  assume "k \<notin> fst ` set kvs"
  then have "map_of kvs k = None" by (simp add: map_of_eq_None_iff)
  then show ?thesis by (simp add: get_default_def)
qed

lemma remember_failed:
  "remember_try E request w = (Inl e, w') \<Longrightarrow>
   remember E request w = (Inl (HTTPException 500 (exn_str e)), w')"
  by (simp add: remember_def)

lemma execute_sql_tool_calls: "tool_calls (snd (execute_sql E v w)) = tool_calls w @ [v]"
proof (cases "\<exists>q. v = JStr q")
  case False
  then show ?thesis by (simp add: execute_sql_not_str)
next
  case True
  then obtain q where v: "v = JStr q" by blast
  show ?thesis
  proof (cases "guard E q")
    case True
    with v show ?thesis by (simp add: execute_sql_refused)
  next
    case False
    obtain res db' where "sqlite_query E (store w) q = (res, db')"
      by (cases "sqlite_query E (store w) q")
    from execute_sql_forwarded [OF False this] v show ?thesis by simp
  qed
qed

lemma react_loop_raised:
  "turn_query r = Inl e \<Longrightarrow> react_loop E chat h r w = Some (Inl e, w)"
  by (subst react_loop.simps) simp

lemma react_loop_done:
  "turn_query r = Inr None \<Longrightarrow> react_loop E chat h r w = Some (Inr (Answer (response_text r)), w)"
  by (subst react_loop.simps) simp

lemma react_loop_step:
  "turn_query r = Inr (Some q) \<Longrightarrow>
   react_loop E chat h r w =
     (case execute_sql E q (w\<lparr>stdout := stdout w @ [RunningSQL q]\<rparr>) of
        (result, w') \<Rightarrow>
          (case chat (h @ [FunctionResponse (lit ''execute_sql'') result]) of
             Inl e \<Rightarrow> Some (Inl e, w')
           | Inr r' \<Rightarrow> react_loop E chat (h @ [FunctionResponse (lit ''execute_sql'') result]) r' w'))"
  by (subst react_loop.simps) simp

lemma length_tool_results: "length (fst (tool_results E qs w)) = length qs"
proof (induction qs arbitrary: w)
  case Nil
  then show ?case by simp
next
  case (Cons q qs)
  obtain result w' where ex: "execute_sql E q (w\<lparr>stdout := stdout w @ [RunningSQL q]\<rparr>) = (result, w')"
    by (cases "execute_sql E q (w\<lparr>stdout := stdout w @ [RunningSQL q]\<rparr>)")
  obtain results w'' where tr: "tool_results E qs w' = (results, w'')"
    by (cases "tool_results E qs w'")
  from Cons [of w'] tr have "length results = length qs" by simp
  with ex tr show ?case by simp
qed

lemma tool_calls_tool_results: "tool_calls (snd (tool_results E qs w)) = tool_calls w @ qs"
proof (induction qs arbitrary: w)
  case Nil
  then show ?case by simp
next
  case (Cons q qs)
  obtain result w' where ex: "execute_sql E q (w\<lparr>stdout := stdout w @ [RunningSQL q]\<rparr>) = (result, w')"
    by (cases "execute_sql E q (w\<lparr>stdout := stdout w @ [RunningSQL q]\<rparr>)")
  obtain results w'' where tr: "tool_results E qs w' = (results, w'')"
    by (cases "tool_results E qs w'")
  have "tool_calls w' = tool_calls w @ [q]"
    using execute_sql_tool_calls [of E q "w\<lparr>stdout := stdout w @ [RunningSQL q]\<rparr>"] ex by simp
  with Cons [of w'] tr have "tool_calls w'' = tool_calls w @ q # qs" by simp
  with ex tr show ?case by simp
qed

lemma react_loop_run:
  assumes "length rs = length qs + 1"
    and "\<forall>k < length qs. turn_query (rs ! k) = Inr (Some (qs ! k))"
    and "turn_query (rs ! length qs) = Inr None"
    and "\<forall>k. 1 \<le> k \<and> k \<le> length qs \<longrightarrow>
           chat (h @ map (FunctionResponse (lit ''execute_sql'')) (take k (fst (tool_results E qs w))))
             = Inr (rs ! k)"
  shows "react_loop E chat h (rs ! 0) w
           = Some (Inr (Answer (response_text (rs ! length qs))), snd (tool_results E qs w))"
  using assms
proof (induction qs arbitrary: rs h w)
  case Nil
  then show ?case by (simp add: react_loop_done)
next
  case (Cons q qs)
  from Cons.prems(1) obtain r0 rs' where rs: "rs = r0 # rs'" and len: "length rs' = length qs + 1"
    by (cases rs) auto
  from Cons.prems(2) rs have q: "turn_query r0 = Inr (Some q)" by auto
  obtain result w' where ex: "execute_sql E q (w\<lparr>stdout := stdout w @ [RunningSQL q]\<rparr>) = (result, w')"
    by (cases "execute_sql E q (w\<lparr>stdout := stdout w @ [RunningSQL q]\<rparr>)")
  obtain results w'' where tr: "tool_results E qs w' = (results, w'')"
    by (cases "tool_results E qs w'")
  let ?h = "h @ [FunctionResponse (lit ''execute_sql'') result]"
  have all: "tool_results E (q # qs) w = (result # results, w'')" using ex tr by simp
  have next_turn: "chat ?h = Inr (rs' ! 0)"
    using Cons.prems(4) [rule_format, of 1] all rs by simp
  have a: "\<forall>k < length qs. turn_query (rs' ! k) = Inr (Some (qs ! k))"
  proof (intro allI impI)
    fix k assume "k < length qs"
    then have "Suc k < length (q # qs)" by simp
    from Cons.prems(2) [rule_format, OF this] rs show "turn_query (rs' ! k) = Inr (Some (qs ! k))"
      by simp
  qed
  have b: "turn_query (rs' ! length qs) = Inr None" using Cons.prems(3) rs by simp
  have c: "\<forall>k. 1 \<le> k \<and> k \<le> length qs \<longrightarrow>
           chat (?h @ map (FunctionResponse (lit ''execute_sql'')) (take k (fst (tool_results E qs w'))))
             = Inr (rs' ! k)"
  proof (intro allI impI)
    fix k assume k: "1 \<le> k \<and> k \<le> length qs"
    then have "1 \<le> Suc k \<and> Suc k \<le> length (q # qs)" by simp
    from Cons.prems(4) [rule_format, OF this] all tr rs
    show "chat (?h @ map (FunctionResponse (lit ''execute_sql'')) (take k (fst (tool_results E qs w'))))
             = Inr (rs' ! k)"
      by simp
  qed
  from Cons.IH [OF len a b c]
  have "react_loop E chat ?h (rs' ! 0) w'
           = Some (Inr (Answer (response_text (rs' ! length qs))), w'')"
    using tr by simp
  moreover have "react_loop E chat h r0 w = react_loop E chat ?h (rs' ! 0) w'"
    using q ex next_turn by (simp add: react_loop_step)
  ultimately show ?case using rs all by simp
qed

lemma remind_failed:
  "remind_try E request w = Some (Inl e, w') \<Longrightarrow>
   remind E request w = Some (Inl RETRIEVAL_FAILED, w'\<lparr>stdout := stdout w' @ [PrintedException e]\<rparr>)"
  by (simp add: remind_def)

lemma remind_answered:
  "remind_try E request w = Some (Inr a, w') \<Longrightarrow> remind E request w = Some (Inr a, w')"
  by (simp add: remind_def)

lemma turn_query_call_turn: "turn_query (call_turn q) = Inr (Some (JStr q))"
  by (simp add: turn_query_def first_part_def call_turn_def turn_def call_part_def sql_query_arg_def)

lemma turn_query_text_turn: "turn_query (text_turn s) = Inr None"
  by (simp add: turn_query_def first_part_def text_turn_def turn_def text_part_def)

section \<open>The claims about execute_sql\<close>

text \<open>
  Claim C1. A query that holds DELETE, DROP, UPDATE or INSERT anywhere, in any mix of
  upper and lower case (\<open>t\<close> is the occurrence, \<open>pre\<close> and \<open>post\<close> what surrounds it), is
  refused: \<open>execute_sql\<close> returns the fixed read-only error, the datastore is the one
  before the call, and no statement was handed to it (no connection was opened).
\<close>

theorem execute_sql_refuses_keywords:
  assumes "k \<in> set mutation_keywords" and "map ascii_upper t = k"
  shows "fst (execute_sql E (JStr (pre @ t @ post)) w) = READ_ONLY_ERROR
       \<and> store (snd (execute_sql E (JStr (pre @ t @ post)) w)) = store w
       \<and> db_statements (snd (execute_sql E (JStr (pre @ t @ post)) w)) = db_statements w"
proof -
  from assms have "guard E (pre @ t @ post)" by (rule guard_variant)
  then show ?thesis by (simp add: execute_sql_refused)
qed

text \<open>
  An instance: the query \<^verbatim>\<open>please Delete from memory\<close>.
\<close>

theorem execute_sql_refuses_keywords_witness:
  "lit ''DELETE'' \<in> set mutation_keywords
   \<and> map ascii_upper (lit ''Delete'') = lit ''DELETE''
   \<and> fst (execute_sql demo_env (JStr (lit ''please Delete from memory'')) (demo_world [dentist]))
       = READ_ONLY_ERROR
   \<and> store (snd (execute_sql demo_env (JStr (lit ''please Delete from memory'')) (demo_world [dentist])))
       = [dentist]
   \<and> db_statements (snd (execute_sql demo_env (JStr (lit ''please Delete from memory'')) (demo_world [dentist])))
       = []"
proof -
  have k: "lit ''DELETE'' \<in> set mutation_keywords" by (simp add: mutation_keywords_def)
  have t: "map ascii_upper (lit ''Delete'') = lit ''DELETE''" by (simp add: lit_def ascii_upper_def)
  have q: "lit ''please Delete from memory'' = lit ''please '' @ lit ''Delete'' @ lit '' from memory''"
    by (simp add: lit_def)
  show ?thesis
    using execute_sql_refuses_keywords [OF k t, of demo_env "lit ''please ''" "lit '' from memory''" "demo_world [dentist]"] k t
    by (simp add: q demo_world_def)
qed

text \<open>
  Claim C9. \<open>execute_sql\<close> refuses a query exactly when the uppercased query has one
  of the four keywords as a substring. A refused query never reaches the datastore;
  every other query is handed to it as it is, whatever the statement does. So a SELECT
  whose LIKE pattern holds the word \<^verbatim>\<open>updated\<close> is refused, and REPLACE, ALTER and CREATE
  statements pass the guard and are handed to the datastore.
\<close>

theorem guard_is_substring_test:
  "(fst (execute_sql E (JStr q) w) = READ_ONLY_ERROR
      \<longleftrightarrow> (\<exists>k \<in> set mutation_keywords. sublist k (upper (unicode_upper E) q)))
   \<and> ((\<exists>k \<in> set mutation_keywords. sublist k (upper (unicode_upper E) q)) \<longrightarrow>
        db_statements (snd (execute_sql E (JStr q) w)) = db_statements w
        \<and> store (snd (execute_sql E (JStr q) w)) = store w)
   \<and> (\<not> (\<exists>k \<in> set mutation_keywords. sublist k (upper (unicode_upper E) q)) \<longrightarrow>
        db_statements (snd (execute_sql E (JStr q) w)) = db_statements w @ [q]
        \<and> store (snd (execute_sql E (JStr q) w)) = snd (sqlite_query E (store w) q))
   \<and> fst (execute_sql E (JStr (lit ''SELECT * FROM memory WHERE text LIKE '%updated%' LIMIT 5'')) w)
        = READ_ONLY_ERROR
   \<and> db_statements (snd (execute_sql E (JStr (lit ''REPLACE INTO memory VALUES (1, 2, 3)'')) w))
        = db_statements w @ [lit ''REPLACE INTO memory VALUES (1, 2, 3)'']
   \<and> db_statements (snd (execute_sql E (JStr (lit ''ALTER TABLE memory RENAME TO m'')) w))
        = db_statements w @ [lit ''ALTER TABLE memory RENAME TO m'']
   \<and> db_statements (snd (execute_sql E (JStr (lit ''CREATE TABLE t (a)'')) w))
        = db_statements w @ [lit ''CREATE TABLE t (a)'']"
  using refusal_iff_substring [of E q w]
  by (simp add: execute_sql_refused like_updated_refused db_statements_forwarded
      replace_passes alter_passes create_passes)

text \<open>
  The same on a datastore with one note, from a state where nothing was executed yet.
\<close>

theorem guard_is_substring_test_witness:
  "fst (execute_sql demo_env (JStr (lit ''SELECT * FROM memory WHERE text LIKE '%updated%' LIMIT 5''))
         (demo_world [dentist])) = READ_ONLY_ERROR
   \<and> db_statements (snd (execute_sql demo_env (JStr (lit ''REPLACE INTO memory VALUES (1, 2, 3)''))
         (demo_world [dentist]))) = [lit ''REPLACE INTO memory VALUES (1, 2, 3)'']
   \<and> db_statements (snd (execute_sql demo_env (JStr (lit ''ALTER TABLE memory RENAME TO m''))
         (demo_world [dentist]))) = [lit ''ALTER TABLE memory RENAME TO m'']
   \<and> db_statements (snd (execute_sql demo_env (JStr (lit ''CREATE TABLE t (a)''))
         (demo_world [dentist]))) = [lit ''CREATE TABLE t (a)'']"
proof -
  have a: "\<exists>k \<in> set mutation_keywords. sublist k (upper (unicode_upper demo_env)
        (lit ''SELECT * FROM memory WHERE text LIKE '%updated%' LIMIT 5''))"
    by code_simp
  have b: "\<not> (\<exists>k \<in> set mutation_keywords. sublist k (upper (unicode_upper demo_env)
        (lit ''REPLACE INTO memory VALUES (1, 2, 3)'')))"
    by code_simp
  have c: "\<not> (\<exists>k \<in> set mutation_keywords. sublist k (upper (unicode_upper demo_env)
        (lit ''ALTER TABLE memory RENAME TO m'')))"
    by code_simp
  have d: "\<not> (\<exists>k \<in> set mutation_keywords. sublist k (upper (unicode_upper demo_env)
        (lit ''CREATE TABLE t (a)'')))"
    by code_simp
  have w: "db_statements (demo_world [dentist]) = []" by (simp add: demo_world_def)
  show ?thesis
    using guard_is_substring_test [of demo_env "lit ''SELECT * FROM memory WHERE text LIKE '%updated%' LIMIT 5''" "demo_world [dentist]"]
      guard_is_substring_test [of demo_env "lit ''REPLACE INTO memory VALUES (1, 2, 3)''" "demo_world [dentist]"]
      guard_is_substring_test [of demo_env "lit ''ALTER TABLE memory RENAME TO m''" "demo_world [dentist]"]
      guard_is_substring_test [of demo_env "lit ''CREATE TABLE t (a)''" "demo_world [dentist]"]
      a b c d w
    by simp
qed

text \<open>
  Claim C3. \<open>execute_sql\<close> returns a string on every argument. An exception raised in
  the body of the \<^verbatim>\<open>try\<close> (the datastore's, or the AttributeError of an argument that is
  not a string) comes back as the text \<^verbatim>\<open>SQL Error: \<close> followed by its message, and the
  result is always one of: the read-only error, such an error text, the no-results
  sentinel, the serialized list of at least one row.
\<close>

theorem execute_sql_never_raises:
  "(\<forall>e w'. execute_sql_try E v (w\<lparr>tool_calls := tool_calls w @ [v]\<rparr>) = (Inl e, w')
        \<longrightarrow> execute_sql E v w = (SQL_ERROR e, w'))
   \<and> (fst (execute_sql E v w) = READ_ONLY_ERROR
      \<or> (\<exists>e. fst (execute_sql E v w) = SQL_ERROR e)
      \<or> fst (execute_sql E v w) = NO_RESULTS
      \<or> (\<exists>rows. rows \<noteq> [] \<and> fst (execute_sql E v w) = dumps (float_repr E) rows))"
proof
  show "\<forall>e w'. execute_sql_try E v (w\<lparr>tool_calls := tool_calls w @ [v]\<rparr>) = (Inl e, w')
        \<longrightarrow> execute_sql E v w = (SQL_ERROR e, w')"
    by (simp add: execute_sql_def)
next
  show "fst (execute_sql E v w) = READ_ONLY_ERROR
      \<or> (\<exists>e. fst (execute_sql E v w) = SQL_ERROR e)
      \<or> fst (execute_sql E v w) = NO_RESULTS
      \<or> (\<exists>rows. rows \<noteq> [] \<and> fst (execute_sql E v w) = dumps (float_repr E) rows)"
  proof (cases "\<exists>q. v = JStr q")
    case False
    then show ?thesis by (auto simp: execute_sql_not_str)
  next
    case True
    then obtain q where v: "v = JStr q" by blast
    show ?thesis
    proof (cases "guard E q")
      case True
      with v show ?thesis by (simp add: execute_sql_refused)
    next
      case False
      obtain res db' where r: "sqlite_query E (store w) q = (res, db')"
        by (cases "sqlite_query E (store w) q")
      show ?thesis
      proof (cases res)
        case (Inl e)
        with False r v have "fst (execute_sql E v w) = SQL_ERROR e"
          by (simp add: execute_sql_raised)
        then show ?thesis by blast
      next
        case (Inr fetched)
        obtain rows where "dicts_of_rows fetched = Inr rows" using dicts_of_rows_ok by blast
        with False r Inr v
        have "fst (execute_sql E v w) = (if rows = [] then NO_RESULTS else dumps (float_repr E) rows)"
          by (simp add: execute_sql_rows)
        then show ?thesis by (cases "rows = []") auto
      qed
    qed
  qed
qed

text \<open>
  An instance: the datastore raises on \<^verbatim>\<open>SELEC 1\<close>, and the caller receives text.
\<close>

theorem execute_sql_never_raises_witness:
  "execute_sql_try demo_env (JStr (lit ''SELEC 1'')) (demo_world [dentist]\<lparr>tool_calls := [JStr (lit ''SELEC 1'')]\<rparr>)
     = (Inl (Exception (lit ''OperationalError'') (lit ''syntax error'')),
        demo_world [dentist]\<lparr>db_statements := [lit ''SELEC 1''], tool_calls := [JStr (lit ''SELEC 1'')]\<rparr>)
   \<and> execute_sql demo_env (JStr (lit ''SELEC 1'')) (demo_world [dentist])
     = (lit ''SQL Error: syntax error'',
        demo_world [dentist]\<lparr>db_statements := [lit ''SELEC 1''], tool_calls := [JStr (lit ''SELEC 1'')]\<rparr>)"
proof -
  have t: "execute_sql_try demo_env (JStr (lit ''SELEC 1'')) (demo_world [dentist]\<lparr>tool_calls := [JStr (lit ''SELEC 1'')]\<rparr>)
     = (Inl (Exception (lit ''OperationalError'') (lit ''syntax error'')),
        demo_world [dentist]\<lparr>db_statements := [lit ''SELEC 1''], tool_calls := [JStr (lit ''SELEC 1'')]\<rparr>)"
    by code_simp
  have w: "tool_calls (demo_world [dentist]) = []" by (simp add: demo_world_def)
  have s: "SQL_ERROR (Exception (lit ''OperationalError'') (lit ''syntax error'')) = lit ''SQL Error: syntax error''"
    by (simp add: SQL_ERROR_def lit_def)
  show ?thesis
    using execute_sql_never_raises [of demo_env "JStr (lit ''SELEC 1'')" "demo_world [dentist]"] t w s
    by simp
qed


text \<open>
  Claim C4, amended. A query that passes the keyword guard and whose execution yields
  no row makes \<open>execute_sql\<close> return the fixed no-results sentinel, and the sentinel
  differs from the read-only error, from every \<^verbatim>\<open>SQL Error\<close> text and from every
  serialized row list.
\<close>

theorem no_results_sentinel:
  assumes "\<not> guard E q" and "fst (sqlite_query E (store w) q) = Inr []"
  shows "fst (execute_sql E (JStr q) w) = NO_RESULTS
       \<and> NO_RESULTS \<noteq> READ_ONLY_ERROR
       \<and> (\<forall>e. NO_RESULTS \<noteq> SQL_ERROR e)
       \<and> (\<forall>R rows. NO_RESULTS \<noteq> dumps R rows)"
proof -
  from assms(2) obtain db' where "sqlite_query E (store w) q = (Inr [], db')"
    by (cases "sqlite_query E (store w) q") simp
  with assms(1) have "fst (execute_sql E (JStr q) w) = NO_RESULTS"
    using execute_sql_rows [of E q w "[]" db' "[]"] by simp
  then show ?thesis by (simp add: results_differ)
qed

text \<open>
  An instance: \<^verbatim>\<open>SELECT * FROM memory\<close> on a datastore without notes.
\<close>

theorem no_results_sentinel_witness:
  "\<not> guard demo_env (lit ''SELECT * FROM memory'')
   \<and> fst (sqlite_query demo_env (store (demo_world [])) (lit ''SELECT * FROM memory'')) = Inr []
   \<and> fst (execute_sql demo_env (JStr (lit ''SELECT * FROM memory'')) (demo_world []))
       = lit ''No results found.''"
proof -
  have g: "\<not> guard demo_env (lit ''SELECT * FROM memory'')" by code_simp
  have r: "fst (sqlite_query demo_env (store (demo_world [])) (lit ''SELECT * FROM memory'')) = Inr []"
    by code_simp
  show ?thesis using no_results_sentinel [OF g r] g r by (simp add: NO_RESULTS_def)
qed

text \<open>
  The claim as first stated fails: this SELECT only reads and matches no note, yet its LIKE
  pattern holds the word \<^verbatim>\<open>update\<close>, so the guard refuses it and the caller receives the
  read-only error instead of the sentinel.
\<close>

theorem no_results_sentinel_counterexample:
  "fst (sqlite_query demo_env (store (demo_world [dentist]))
         (lit ''SELECT * FROM memory WHERE text LIKE '%update%' LIMIT 5'')) = Inr []
   \<and> fst (execute_sql demo_env (JStr (lit ''SELECT * FROM memory WHERE text LIKE '%update%' LIMIT 5''))
         (demo_world [dentist])) = lit ''Error: Read-only access allowed.''
   \<and> lit ''Error: Read-only access allowed.'' \<noteq> NO_RESULTS"
  by code_simp

text \<open>
  Claim C5, amended. A query that passes the keyword guard and whose execution yields
  at least one row makes \<open>execute_sql\<close> return the JSON text of a list with one mapping
  per row, in the order of the rows. The keys of a mapping are exactly the column names
  of that result row, each once, and a key maps to what \<^verbatim>\<open>row[key]\<close> gives. A \<^verbatim>\<open>bytes\<close>
  value, the one kind the encoder does not know, is written as the string \<^verbatim>\<open>str(b)\<close>.
\<close>

theorem rows_serialized_in_order:
  assumes "\<not> guard E q" and "fst (sqlite_query E (store w) q) = Inr fetched" and "fetched \<noteq> []"
  shows "\<exists>rows. fst (execute_sql E (JStr q) w) = dumps (float_repr E) rows
       \<and> length rows = length fetched
       \<and> (\<forall>i < length fetched.
            fst ` set (rows ! i) = fst ` set (fetched ! i)
            \<and> distinct (map fst (rows ! i))
            \<and> (\<forall>k \<in> fst ` set (fetched ! i).
                 \<exists>v. row_getitem (fetched ! i) k = Inr v \<and> map_of (rows ! i) k = Some v))
       \<and> (\<forall>b. dumps_value (float_repr E) (SBlob b)
                = dumps_value (float_repr E) (SText (bytes_str b)))"
proof -
  from assms(2) obtain db' where r: "sqlite_query E (store w) q = (Inr fetched, db')"
    by (cases "sqlite_query E (store w) q") simp
  obtain rows where rows: "dicts_of_rows fetched = Inr rows"
      and all2: "list_all2 (\<lambda>r d. dict_of_row r = Inr d) fetched rows"
    using dicts_of_rows_ok by blast
  from all2 have len: "length rows = length fetched" by (simp add: list_all2_lengthD)
  with assms(3) have "rows \<noteq> []" by auto
  with assms(1) r rows have out: "fst (execute_sql E (JStr q) w) = dumps (float_repr E) rows"
    by (simp add: execute_sql_rows)
  have each: "fst ` set (rows ! i) = fst ` set (fetched ! i)
            \<and> distinct (map fst (rows ! i))
            \<and> (\<forall>k \<in> fst ` set (fetched ! i).
                 \<exists>v. row_getitem (fetched ! i) k = Inr v \<and> map_of (rows ! i) k = Some v)"
    if "i < length fetched" for i
  proof -
    have "dict_of_row (fetched ! i) = Inr (rows ! i)"
      using list_all2_nthD [OF all2 that] by simp
    with dict_of_row_ok [of "fetched ! i"] show ?thesis by auto
  qed
  have blob: "\<forall>b. dumps_value (float_repr E) (SBlob b)
                = dumps_value (float_repr E) (SText (bytes_str b))"
    by simp
  from out len each blob show ?thesis by blast
qed

text \<open>
  An instance: \<^verbatim>\<open>SELECT * FROM memory\<close> on two notes gives two mappings over the
  three columns, the first for the first note.
\<close>

theorem rows_serialized_in_order_witness:
  "\<not> guard demo_env (lit ''SELECT * FROM memory'')
   \<and> fst (sqlite_query demo_env (store (demo_world [dentist, resume])) (lit ''SELECT * FROM memory''))
       = Inr [note_row dentist, note_row resume]
   \<and> (\<exists>rows. fst (execute_sql demo_env (JStr (lit ''SELECT * FROM memory'')) (demo_world [dentist, resume]))
         = dumps (float_repr demo_env) rows
       \<and> length rows = 2
       \<and> fst ` set (rows ! 0) = set store_columns \<and> fst ` set (rows ! 1) = set store_columns
       \<and> map_of (rows ! 0) (lit ''text'') = Some (SText (fst dentist))
       \<and> map_of (rows ! 1) (lit ''text'') = Some (SText (fst resume)))"
proof -
  have g: "\<not> guard demo_env (lit ''SELECT * FROM memory'')" by code_simp
  have r: "fst (sqlite_query demo_env (store (demo_world [dentist, resume])) (lit ''SELECT * FROM memory''))
       = Inr [note_row dentist, note_row resume]"
    by code_simp
  have n: "[note_row dentist, note_row resume] \<noteq> []" by simp
  have c: "fst ` set (note_row n) = set store_columns" for n
    by (cases n) (simp add: note_row_def store_columns_def)
  have t: "row_getitem (note_row n) (lit ''text'') = Inr (SText (fst n))" for n
    by (cases n) (simp add: note_row_def equal_ignore_case_def)
  have m: "lit ''text'' \<in> set store_columns" by (simp add: store_columns_def)
  from rows_serialized_in_order [OF g r n] obtain rows where
    rows: "fst (execute_sql demo_env (JStr (lit ''SELECT * FROM memory'')) (demo_world [dentist, resume]))
         = dumps (float_repr demo_env) rows"
      "length rows = length [note_row dentist, note_row resume]"
      "\<forall>i < length [note_row dentist, note_row resume].
            fst ` set (rows ! i) = fst ` set ([note_row dentist, note_row resume] ! i)
            \<and> distinct (map fst (rows ! i))
            \<and> (\<forall>k \<in> fst ` set ([note_row dentist, note_row resume] ! i).
                 \<exists>v. row_getitem ([note_row dentist, note_row resume] ! i) k = Inr v \<and> map_of (rows ! i) k = Some v)"
    by blast
  have r0: "fst ` set (rows ! 0) = set store_columns"
    and k0: "\<forall>k \<in> set store_columns. \<exists>v. row_getitem (note_row dentist) k = Inr v \<and> map_of (rows ! 0) k = Some v"
    using rows(3) [rule_format, of 0] by (simp_all add: c del: map_of_eq_Some_iff)
  have r1: "fst ` set (rows ! 1) = set store_columns"
    and k1: "\<forall>k \<in> set store_columns. \<exists>v. row_getitem (note_row resume) k = Inr v \<and> map_of (rows ! 1) k = Some v"
    using rows(3) [rule_format, of 1] by (simp_all add: c del: map_of_eq_Some_iff)
  have "map_of (rows ! 0) (lit ''text'') = Some (SText (fst dentist))"
    using k0 [rule_format, OF m] by (simp add: t)
  moreover have "map_of (rows ! 1) (lit ''text'') = Some (SText (fst resume))"
    using k1 [rule_format, OF m] by (simp add: t)
  ultimately show ?thesis using rows(1,2) g r r0 r1 by auto
qed

text \<open>
  \<^verbatim>\<open>SELECT text FROM memory\<close> returns a row, and the output is no serialization of
  mappings over the columns text, tags, timestamp: whatever \<^verbatim>\<open>float.__repr__\<close> is, such a
  text would hold the letter g (103) of the key \<^verbatim>\<open>tags\<close>, and the output has none.
\<close>

lemma select_text_keys:
  "\<not> (\<exists>rows. fst (execute_sql demo_env (JStr (lit ''SELECT text FROM memory'')) (demo_world [dentist]))
             = dumps (float_repr demo_env) rows
           \<and> rows \<noteq> [] \<and> (\<forall>d \<in> set rows. fst ` set d = set store_columns))"
proof
  have g: "103 \<notin> set (fst (execute_sql demo_env (JStr (lit ''SELECT text FROM memory'')) (demo_world [dentist])))"
    by code_simp
  assume "\<exists>rows. fst (execute_sql demo_env (JStr (lit ''SELECT text FROM memory'')) (demo_world [dentist]))
           = dumps (float_repr demo_env) rows
         \<and> rows \<noteq> [] \<and> (\<forall>d \<in> set rows. fst ` set d = set store_columns)"
  then obtain rows d where out: "fst (execute_sql demo_env (JStr (lit ''SELECT text FROM memory'')) (demo_world [dentist]))
           = dumps (float_repr demo_env) rows"
    and d: "d \<in> set rows" "fst ` set d = set store_columns"
    by (metis last_in_set)
  from d(2) have "lit ''tags'' \<in> fst ` set d" by (simp add: store_columns_def)
  moreover have "103 \<in> set (lit ''tags'')" by (simp add: lit_def)
  moreover have "escape_ascii 103 = [103]" by (simp add: escape_ascii_def)
  ultimately have "103 \<in> set (dumps (float_repr demo_env) rows)"
    using d(1) by (rule key_in_dumps [rotated])
  with out g show False by simp
qed

text \<open>
  The claim as first stated fails twice. \<^verbatim>\<open>SELECT text FROM memory\<close> returns a row, and the
  output is the serialization of one mapping whose only key is \<^verbatim>\<open>text\<close>, not the columns
  text, tags, timestamp of the store. And a SELECT whose LIKE pattern holds \<^verbatim>\<open>update\<close>
  matches a note, but is refused by the guard: the output is the read-only error, no
  serialized list.
\<close>

theorem rows_serialized_in_order_counterexample:
  "fst (sqlite_query demo_env (store (demo_world [dentist])) (lit ''SELECT text FROM memory''))
       = Inr [[(lit ''text'', SText (fst dentist))]]
   \<and> fst (execute_sql demo_env (JStr (lit ''SELECT text FROM memory'')) (demo_world [dentist]))
       = dumps (float_repr demo_env) [[(lit ''text'', SText (fst dentist))]]
   \<and> set (map fst [(lit ''text'', SText (fst dentist))]) \<noteq> set store_columns
   \<and> fst (sqlite_query demo_env (store (demo_world [resume]))
         (lit ''SELECT * FROM memory WHERE text LIKE '%update%' LIMIT 5'')) = Inr [note_row resume]
   \<and> fst (execute_sql demo_env (JStr (lit ''SELECT * FROM memory WHERE text LIKE '%update%' LIMIT 5''))
         (demo_world [resume])) = lit ''Error: Read-only access allowed.''"
  by code_simp

section \<open>The claims about remember\<close>

text \<open>
  Claim C7. When the call of the classifier raises, or \<^verbatim>\<open>json.loads\<close> of its answer
  raises, \<open>remember\<close> leaves the state as it was, so no note is persisted, and the
  caller receives status 500 with the message of the exception.
\<close>

theorem remember_persists_nothing_on_classifier_failure:
  assumes "generate_content E (remember_prompt (request_text request)) = Inl e
     \<or> (\<exists>t. generate_content E (remember_prompt (request_text request)) = Inr t
            \<and> loads_text E t = Inl e)"
  shows "remember E request w = (Inl (HTTPException 500 (exn_str e)), w)"
proof -
  from assms have "remember_try E request w = (Inl e, w)"
    by (auto simp: remember_try_def)
  then show ?thesis by (rule remember_failed)
qed

text \<open>
  Two instances: the classifier is unavailable; the classifier answers with text that
  is no JSON. The datastore keeps its one note.
\<close>

theorem remember_persists_nothing_on_classifier_failure_witness:
  "remember demo_env \<lparr>request_text = lit ''Buy milk''\<rparr> (demo_world [dentist])
     = (Inl (HTTPException 500 (lit ''503 UNAVAILABLE'')), demo_world [dentist])
   \<and> remember mute_env \<lparr>request_text = lit ''Buy milk''\<rparr> (demo_world [dentist])
     = (Inl (HTTPException 500 (lit ''Expecting value'')), demo_world [dentist])
   \<and> store (demo_world [dentist]) = [dentist]"
proof -
  have g: "generate_content demo_env (remember_prompt (request_text \<lparr>request_text = lit ''Buy milk''\<rparr>))
     = Inl (Exception (lit ''ServerError'') (lit ''503 UNAVAILABLE''))"
    by (simp add: demo_env_def)
  have l: "\<exists>t. generate_content mute_env (remember_prompt (request_text \<lparr>request_text = lit ''Buy milk''\<rparr>))
         = Inr t
       \<and> loads_text mute_env t = Inl (Exception (lit ''JSONDecodeError'') (lit ''Expecting value''))"
    by (simp add: mute_env_def demo_env_def loads_text_def)
  show ?thesis
    using remember_persists_nothing_on_classifier_failure [OF disjI1, OF g, of "demo_world [dentist]"]
      remember_persists_nothing_on_classifier_failure [OF disjI2, OF l, of "demo_world [dentist]"]
    by (simp add: demo_world_def)
qed

text \<open>
  Claim C6, amended. A note that \<open>remember\<close> persists holds the text of the request as
  it is, the tags that \<^verbatim>\<open>get("tags", "general")\<close> gives on the classifier's JSON, and the
  timestamp; nothing else of the state changes. The tags are \<^verbatim>\<open>general\<close> whenever the
  JSON object has no key \<^verbatim>\<open>tags\<close>.
\<close>

theorem remember_stores_request_text:
  assumes "remember E request w = (Inr r, w')"
  shows "\<exists>doc tags. (\<exists>t. generate_content E (remember_prompt (request_text request)) = Inr t
              \<and> loads_text E t = Inr doc)
       \<and> get_default doc (lit ''tags'') (JStr (lit ''general'')) = Inr tags
       \<and> (\<forall>kvs. doc = JObj kvs \<and> lit ''tags'' \<notin> fst ` set kvs \<longrightarrow> tags = JStr (lit ''general''))
       \<and> sqlite_insert E (store w) (request_text request) tags (now_timestamp E) = Inr (store w')
       \<and> w' = w\<lparr>store := store w'\<rparr>
       \<and> r = Saved tags"
proof -
  from assms have x: "remember_try E request w = (Inr r, w')"
    by (auto simp: remember_def split: prod.splits sum.splits)
  then obtain t doc tags db' where
    "generate_content E (remember_prompt (request_text request)) = Inr t"
    "loads_text E t = Inr doc"
    "get_default doc (lit ''tags'') (JStr (lit ''general'')) = Inr tags"
    "sqlite_insert E (store w) (request_text request) tags (now_timestamp E) = Inr db'"
    "r = Saved tags" "w' = w\<lparr>store := db'\<rparr>"
    by (auto simp: remember_try_def split: sum.splits)
  moreover have "\<forall>kvs. doc = JObj kvs \<and> lit ''tags'' \<notin> fst ` set kvs \<longrightarrow> tags = JStr (lit ''general'')"
    using calculation(3) by (auto simp: get_default_absent)
  ultimately show ?thesis by auto
qed


text \<open>
  An instance: the classifier answers with the empty object, and the note is
  stored under \<^verbatim>\<open>general\<close>.
\<close>

theorem remember_stores_request_text_witness:
  "remember (classifier_env (lit ''{}'') (JObj [])) \<lparr>request_text = lit ''Buy milk''\<rparr> (demo_world [dentist])
     = (Inr (Saved (JStr (lit ''general''))),
        demo_world [dentist, (lit ''Buy milk'', JStr (lit ''general''), lit ''2026-01-05 09:30:00'')])
   \<and> (\<exists>doc tags. loads_text (classifier_env (lit ''{}'') (JObj [])) (Some (lit ''{}'')) = Inr doc
         \<and> get_default doc (lit ''tags'') (JStr (lit ''general'')) = Inr tags
         \<and> sqlite_insert (classifier_env (lit ''{}'') (JObj [])) [dentist] (lit ''Buy milk'') tags
              (lit ''2026-01-05 09:30:00'')
            = Inr [dentist, (lit ''Buy milk'', JStr (lit ''general''), lit ''2026-01-05 09:30:00'')])"
proof -
  have r: "remember (classifier_env (lit ''{}'') (JObj [])) \<lparr>request_text = lit ''Buy milk''\<rparr> (demo_world [dentist])
     = (Inr (Saved (JStr (lit ''general''))),
        demo_world [dentist, (lit ''Buy milk'', JStr (lit ''general''), lit ''2026-01-05 09:30:00'')])"
    by code_simp
  have g: "generate_content (classifier_env (lit ''{}'') (JObj [])) p = Inr (Some (lit ''{}''))" for p
    by (simp add: classifier_env_def)
  have n: "now_timestamp (classifier_env (lit ''{}'') (JObj [])) = lit ''2026-01-05 09:30:00''"
    by (simp add: classifier_env_def demo_env_def)
  show ?thesis
    using remember_stores_request_text [OF r] r g n
    by (auto simp: demo_world_def)
qed

text \<open>
  The claim as first stated fails: a request with the empty text is accepted (the field is
  any \<^verbatim>\<open>str\<close>), and the note stored for it has the empty text.
\<close>

theorem remember_stores_request_text_counterexample:
  "remember (classifier_env (lit ''{}'') (JObj [(lit ''tags'', JStr (lit ''misc''))]))
      \<lparr>request_text = []\<rparr> (demo_world [])
     = (Inr (Saved (JStr (lit ''misc''))),
        demo_world [([], JStr (lit ''misc''), lit ''2026-01-05 09:30:00'')])
   \<and> store (demo_world [([], JStr (lit ''misc''), lit ''2026-01-05 09:30:00'')])
     = [([], JStr (lit ''misc''), lit ''2026-01-05 09:30:00'')]"
  by code_simp

section \<open>The claims about remind\<close>

text \<open>
  Claim C2. Take a run of \<open>remind\<close> in which the engine is called N times: its call
  number k + 1 receives the question and the results of the first k queries, as the
  loop sends them, and returns the turn \<open>rs ! k\<close>. Let the first N - 1 of these turns
  ask for the queries \<open>qs\<close>, and the N-th carry no function call. Then \<open>remind\<close>
  returns, its answer is the text of that N-th turn, and \<open>execute_sql\<close> was called
  exactly N - 1 times, with the queries \<open>qs\<close> in order. Nothing is asked of the engine
  on other histories.
\<close>

theorem remind_calls_and_answer:
  assumes "1 \<le> N" and "length rs = N" and "length qs = N - 1"
    and "chats_create E (sys_instruct (now_date E)) = Inr chat"
    and "\<forall>k < N. chat (sent (question request) (take k (fst (tool_results E qs w)))) = Inr (rs ! k)"
    and "\<forall>k < N - 1. turn_query (rs ! k) = Inr (Some (qs ! k))"
    and "turn_query (rs ! (N - 1)) = Inr None"
  shows "remind E request w
           = Some (Inr (Answer (response_text (rs ! (N - 1)))), snd (tool_results E qs w))
       \<and> tool_calls (snd (tool_results E qs w)) = tool_calls w @ qs
       \<and> length (tool_calls (snd (tool_results E qs w))) = length (tool_calls w) + (N - 1)"
proof -
  let ?h = "[UserText (question request)]"
  have len: "length rs = length qs + 1" using assms(1-3) by simp
  have first: "chat ?h = Inr (rs ! 0)"
    using assms(5) [rule_format, of 0] assms(1) by (simp add: sent_def)
  have rest: "\<forall>k. 1 \<le> k \<and> k \<le> length qs \<longrightarrow>
           chat (?h @ map (FunctionResponse (lit ''execute_sql'')) (take k (fst (tool_results E qs w))))
             = Inr (rs ! k)"
  proof (intro allI impI)
    fix k assume "1 \<le> k \<and> k \<le> length qs"
    with assms(1,3) have "k < N" by arith
    from assms(5) [rule_format, OF this]
    show "chat (?h @ map (FunctionResponse (lit ''execute_sql'')) (take k (fst (tool_results E qs w))))
             = Inr (rs ! k)"
      by (simp add: sent_def)
  qed
  have "react_loop E chat ?h (rs ! 0) w
           = Some (Inr (Answer (response_text (rs ! length qs))), snd (tool_results E qs w))"
    using assms(3,6,7) by (intro react_loop_run [OF len _ _ rest]) simp_all
  with assms(3,4) first
  have "remind_try E request w
           = Some (Inr (Answer (response_text (rs ! (N - 1)))), snd (tool_results E qs w))"
    by (simp add: remind_try_def)
  then have "remind E request w
           = Some (Inr (Answer (response_text (rs ! (N - 1)))), snd (tool_results E qs w))"
    by (rule remind_answered)
  then show ?thesis using assms(3) by (simp add: tool_calls_tool_results)
qed

text \<open>
  Two instances with N = 2. The scripted engine of the scenario of the specification
  answers by the number of the call: one query, then the answer about the dentist. The
  second engine answers by the content of the last message: the result of its one
  query comes back as the answer.
\<close>

theorem remind_calls_and_answer_witness:
  "remind (chat_env dentist_script) dentist_question (demo_world [dentist])
     = Some (Inr (Answer (Some (lit ''You have a dentist appointment next Tuesday.''))),
         snd (tool_results (chat_env dentist_script)
           [JStr (lit ''SELECT * FROM memory WHERE memory MATCH 'dentist' LIMIT 5'')]
           (demo_world [dentist])))
   \<and> tool_calls (snd (tool_results (chat_env dentist_script)
           [JStr (lit ''SELECT * FROM memory WHERE memory MATCH 'dentist' LIMIT 5'')]
           (demo_world [dentist])))
     = [JStr (lit ''SELECT * FROM memory WHERE memory MATCH 'dentist' LIMIT 5'')]
   \<and> remind adaptive_env dentist_question (demo_world [dentist])
     = Some (Inr (Answer (Some (dumps (float_repr demo_env) [[(lit ''text'', SText (fst dentist))]]))),
         snd (tool_results adaptive_env [JStr (lit ''SELECT text FROM memory'')] (demo_world [dentist])))
   \<and> tool_calls (snd (tool_results adaptive_env [JStr (lit ''SELECT text FROM memory'')]
           (demo_world [dentist])))
     = [JStr (lit ''SELECT text FROM memory'')]"
proof -
  let ?w = "demo_world [dentist]"
  have n: "1 \<le> (2::nat)" by simp
  have tc: "tool_calls ?w = []" by (simp add: demo_world_def)
  \<comment> \<open>the scripted engine\<close>
  let ?E = "chat_env dentist_script"
  let ?q = "lit ''SELECT * FROM memory WHERE memory MATCH 'dentist' LIMIT 5''"
  have c: "chats_create ?E (sys_instruct (now_date ?E)) = Inr (scripted dentist_script)"
    by (simp add: chat_env_def)
  have l: "length dentist_script = 2" "length [JStr ?q] = 2 - 1"
    by (simp_all add: dentist_script_def)
  have t: "\<forall>k < 2. scripted dentist_script
        (sent (question dentist_question) (take k (fst (tool_results ?E [JStr ?q] ?w))))
      = Inr (dentist_script ! k)"
  proof (intro allI impI)
    fix k :: nat assume "k < 2"
    then have "length (sent (question dentist_question) (take k (fst (tool_results ?E [JStr ?q] ?w))))
        = k + 1"
      by (simp add: sent_def length_tool_results del: tool_results.simps)
    with \<open>k < 2\<close> show "scripted dentist_script
        (sent (question dentist_question) (take k (fst (tool_results ?E [JStr ?q] ?w))))
      = Inr (dentist_script ! k)"
      by (simp add: scripted_def l)
  qed
  have u: "\<forall>k < 2 - 1. turn_query (dentist_script ! k) = Inr (Some ([JStr ?q] ! k))"
    by (simp add: dentist_script_def turn_query_call_turn)
  have f: "turn_query (dentist_script ! (2 - 1)) = Inr None"
    by (simp add: dentist_script_def turn_query_text_turn)
  have a: "response_text (dentist_script ! (2 - 1))
      = Some (lit ''You have a dentist appointment next Tuesday.'')"
    by (simp add: dentist_script_def text_turn_def turn_def)
  note 1 = remind_calls_and_answer [OF n l c t u f]
  \<comment> \<open>the engine that answers by the content of the last message\<close>
  let ?p = "lit ''SELECT text FROM memory''"
  let ?res = "fst (execute_sql adaptive_env (JStr ?p) (?w\<lparr>stdout := stdout ?w @ [RunningSQL (JStr ?p)]\<rparr>))"
  let ?rs = "[call_turn ?p, text_turn ?res]"
  have c': "chats_create adaptive_env (sys_instruct (now_date adaptive_env)) = Inr adaptive"
    by (simp add: adaptive_env_def)
  have l': "length ?rs = 2" "length [JStr ?p] = 2 - 1" by simp_all
  have tr: "fst (tool_results adaptive_env [JStr ?p] ?w) = [?res]"
    by (simp split: prod.splits)
  have t': "\<forall>k < 2. adaptive (sent (question dentist_question)
        (take k (fst (tool_results adaptive_env [JStr ?p] ?w)))) = Inr (?rs ! k)"
  proof (intro allI impI)
    fix k :: nat assume "k < 2"
    then consider "k = 0" | "k = 1" by arith
    then show "adaptive (sent (question dentist_question)
        (take k (fst (tool_results adaptive_env [JStr ?p] ?w)))) = Inr (?rs ! k)"
      by cases (simp_all add: tr sent_def adaptive_def del: tool_results.simps)
  qed
  have u': "\<forall>k < 2 - 1. turn_query (?rs ! k) = Inr (Some ([JStr ?p] ! k))"
    by (simp add: turn_query_call_turn)
  have f': "turn_query (?rs ! (2 - 1)) = Inr None"
    by (simp add: turn_query_text_turn)
  have r: "?res = dumps (float_repr demo_env) [[(lit ''text'', SText (fst dentist))]]"
    by code_simp
  have a': "response_text (?rs ! (2 - 1)) = Some ?res"
    by (simp add: text_turn_def turn_def)
  note 2 = remind_calls_and_answer [OF n l' c' t' u' f']
  note 3 = 1 [unfolded a tc append_Nil] and 4 = 2 [unfolded a', unfolded r tc append_Nil]
  show ?thesis
    apply (intro conjI)
       apply (rule 3 [THEN conjunct1])
      apply (rule 3 [THEN conjunct2, THEN conjunct1])
     apply (rule 4 [THEN conjunct1])
    apply (rule 4 [THEN conjunct2, THEN conjunct1])
    done
qed

text \<open>
  Claim C8. Whatever exception the body of \<open>remind\<close> raises, the caller receives status
  500 with the fixed detail \<^verbatim>\<open>Memory retrieval failed.\<close>, which does not depend on the
  exception, and the exception goes to standard output only. No other error leaves
  \<open>remind\<close>. A first turn that is malformed (no candidate, no part, a function call
  without the argument \<^verbatim>\<open>sql_query\<close>) is such a failure.
\<close>

theorem remind_failure_is_generic:
  "(\<forall>e w'. remind_try E request w = Some (Inl e, w') \<longrightarrow>
       remind E request w
         = Some (Inl (HTTPException 500 (lit ''Memory retrieval failed.'')),
                 w'\<lparr>stdout := stdout w' @ [PrintedException e]\<rparr>))
   \<and> (\<forall>x w'. remind E request w = Some (Inl x, w') \<longrightarrow>
         x = HTTPException 500 (lit ''Memory retrieval failed.''))
   \<and> (\<forall>chat r e. chats_create E (sys_instruct (now_date E)) = Inr chat
         \<and> chat [UserText (question request)] = Inr r \<and> turn_query r = Inl e \<longrightarrow>
       remind E request w
         = Some (Inl (HTTPException 500 (lit ''Memory retrieval failed.'')),
                 w\<lparr>stdout := stdout w @ [PrintedException e]\<rparr>))"
proof (intro conjI allI impI)
  fix e w'
  assume "remind_try E request w = Some (Inl e, w')"
  then show "remind E request w
         = Some (Inl (HTTPException 500 (lit ''Memory retrieval failed.'')),
                 w'\<lparr>stdout := stdout w' @ [PrintedException e]\<rparr>)"
    by (simp add: remind_failed flip: RETRIEVAL_FAILED_def)
next
  fix x w'
  assume "remind E request w = Some (Inl x, w')"
  then show "x = HTTPException 500 (lit ''Memory retrieval failed.'')"
    by (auto simp: remind_def RETRIEVAL_FAILED_def split: option.splits sum.splits prod.splits)
next
  fix chat r e
  assume a: "chats_create E (sys_instruct (now_date E)) = Inr chat
         \<and> chat [UserText (question request)] = Inr r \<and> turn_query r = Inl e"
  then have "react_loop E chat [UserText (question request)] r w = Some (Inl e, w)"
    by (simp add: react_loop_raised)
  with a have "remind_try E request w = Some (Inl e, w)"
    by (simp add: remind_try_def)
  then show "remind E request w
         = Some (Inl (HTTPException 500 (lit ''Memory retrieval failed.'')),
                 w\<lparr>stdout := stdout w @ [PrintedException e]\<rparr>)"
    by (simp add: remind_failed flip: RETRIEVAL_FAILED_def)
qed

text \<open>
  Two instances: the engine asks for a call without arguments, and the KeyError is
  printed while the caller sees the fixed detail; the engine is unavailable, and the
  caller sees the same detail.
\<close>

theorem remind_failure_is_generic_witness:
  "remind (chat_env [turn [call_part []] None]) dentist_question (demo_world [dentist])
     = Some (Inl (HTTPException 500 (lit ''Memory retrieval failed.'')),
             demo_world [dentist]\<lparr>stdout := [PrintedException key_error]\<rparr>)
   \<and> exn_str key_error = [39] @ lit ''sql_query'' @ [39]
   \<and> remind demo_env dentist_question (demo_world [dentist])
     = Some (Inl (HTTPException 500 (lit ''Memory retrieval failed.'')),
             demo_world [dentist]\<lparr>stdout :=
               [PrintedException (Exception (lit ''ServerError'') (lit ''503 UNAVAILABLE''))]\<rparr>)"
proof -
  let ?E = "chat_env [turn [call_part []] None]"
  have c: "chats_create ?E (sys_instruct (now_date ?E)) = Inr (scripted [turn [call_part []] None])"
    by (simp add: chat_env_def)
  have s: "scripted [turn [call_part []] None] [UserText (question dentist_question)]
      = Inr (turn [call_part []] None)"
    by (simp add: scripted_def)
  have q: "turn_query (turn [call_part []] None) = Inl key_error"
    by (simp add: turn_query_def first_part_def turn_def call_part_def sql_query_arg_def)
  have w: "stdout (demo_world [dentist]) = []" by (simp add: demo_world_def)
  have 1: "remind ?E dentist_question (demo_world [dentist])
         = Some (Inl (HTTPException 500 (lit ''Memory retrieval failed.'')),
                 demo_world [dentist]\<lparr>stdout := stdout (demo_world [dentist]) @ [PrintedException key_error]\<rparr>)"
    using remind_failure_is_generic [of ?E dentist_question "demo_world [dentist]",
        THEN conjunct2, THEN conjunct2, rule_format, of "scripted [turn [call_part []] None]"
          "turn [call_part []] None" key_error] c s q
    by simp
  have t: "remind_try demo_env dentist_question (demo_world [dentist])
      = Some (Inl (Exception (lit ''ServerError'') (lit ''503 UNAVAILABLE'')), demo_world [dentist])"
    by (simp add: remind_try_def demo_env_def)
  have 2: "remind demo_env dentist_question (demo_world [dentist])
     = Some (Inl (HTTPException 500 (lit ''Memory retrieval failed.'')),
             demo_world [dentist]\<lparr>stdout := stdout (demo_world [dentist])
               @ [PrintedException (Exception (lit ''ServerError'') (lit ''503 UNAVAILABLE''))]\<rparr>)"
    using remind_failure_is_generic [of demo_env dentist_question "demo_world [dentist]",
        THEN conjunct1, rule_format, OF t] .
  from 1 2 w show ?thesis by (simp add: key_error_def)
qed

text \<open>
  Claim C10. The loop looks at the first part of the first candidate only, whatever the
  other parts \<open>ps\<close> and candidates \<open>cs\<close> hold. Without a function call there, the loop
  ends and the text of the turn is the answer. With one, the query is its argument
  \<^verbatim>\<open>sql_query\<close>: it is printed, executed, and the result is sent back under the name
  \<^verbatim>\<open>execute_sql\<close>. Without arguments, or without that argument, the loop ends with an
  exception.
\<close>

theorem loop_reads_first_part_only:
  "(candidates r = Some (c # cs) \<and> cand_content c = Some ct \<and> parts ct = Some (p # ps)
      \<and> part_function_call p = None \<longrightarrow>
        react_loop E chat h r w = Some (Inr (Answer (response_text r)), w))
   \<and> (candidates r = Some (c # cs) \<and> cand_content c = Some ct \<and> parts ct = Some (p # ps)
      \<and> part_function_call p = Some fc \<and> fc_args fc = Some args
      \<and> map_of args (lit ''sql_query'') = Some v \<longrightarrow>
        react_loop E chat h r w =
          (case execute_sql E v (w\<lparr>stdout := stdout w @ [RunningSQL v]\<rparr>) of
             (result, w') \<Rightarrow>
               (case chat (h @ [FunctionResponse (lit ''execute_sql'') result]) of
                  Inl e \<Rightarrow> Some (Inl e, w')
                | Inr r' \<Rightarrow>
                    react_loop E chat (h @ [FunctionResponse (lit ''execute_sql'') result]) r' w')))
   \<and> (candidates r = Some (c # cs) \<and> cand_content c = Some ct \<and> parts ct = Some (p # ps)
      \<and> part_function_call p = Some fc
      \<and> (fc_args fc = None \<or> (\<exists>args. fc_args fc = Some args \<and> map_of args (lit ''sql_query'') = None)) \<longrightarrow>
        (\<exists>e. react_loop E chat h r w = Some (Inl e, w)))"
proof (intro conjI impI)
  assume "candidates r = Some (c # cs) \<and> cand_content c = Some ct \<and> parts ct = Some (p # ps)
      \<and> part_function_call p = None"
  then have "turn_query r = Inr None" by (simp add: turn_query_def first_part_def)
  then show "react_loop E chat h r w = Some (Inr (Answer (response_text r)), w)"
    by (rule react_loop_done)
next
  assume "candidates r = Some (c # cs) \<and> cand_content c = Some ct \<and> parts ct = Some (p # ps)
      \<and> part_function_call p = Some fc \<and> fc_args fc = Some args
      \<and> map_of args (lit ''sql_query'') = Some v"
  then have "turn_query r = Inr (Some v)"
    by (simp add: turn_query_def first_part_def sql_query_arg_def)
  then show "react_loop E chat h r w =
          (case execute_sql E v (w\<lparr>stdout := stdout w @ [RunningSQL v]\<rparr>) of
             (result, w') \<Rightarrow>
               (case chat (h @ [FunctionResponse (lit ''execute_sql'') result]) of
                  Inl e \<Rightarrow> Some (Inl e, w')
                | Inr r' \<Rightarrow>
                    react_loop E chat (h @ [FunctionResponse (lit ''execute_sql'') result]) r' w'))"
    by (rule react_loop_step)
next
  assume "candidates r = Some (c # cs) \<and> cand_content c = Some ct \<and> parts ct = Some (p # ps)
      \<and> part_function_call p = Some fc
      \<and> (fc_args fc = None \<or> (\<exists>args. fc_args fc = Some args \<and> map_of args (lit ''sql_query'') = None))"
  then have "\<exists>e. turn_query r = Inl e"
    by (auto simp: turn_query_def first_part_def sql_query_arg_def)
  then show "\<exists>e. react_loop E chat h r w = Some (Inl e, w)"
    by (auto simp: react_loop_raised)
qed

text \<open>
  Instances: a turn with a text part followed by a function call part is taken as the
  answer and nothing is executed; a function call without arguments ends the loop with
  an exception; a function call with the argument is executed and the loop goes on to
  the answer of the next turn.
\<close>

theorem loop_reads_first_part_only_witness:
  "react_loop demo_env (scripted []) [UserText (question dentist_question)]
      (turn [text_part (lit ''Let me look.''),
             call_part [(lit ''sql_query'', JStr (lit ''SELECT * FROM memory''))]]
         (Some (lit ''Let me look.'')))
      (demo_world [dentist])
     = Some (Inr (Answer (Some (lit ''Let me look.''))), demo_world [dentist])
   \<and> (\<exists>e. react_loop demo_env (scripted []) [UserText (question dentist_question)]
          (turn [call_part []] None) (demo_world [dentist])
        = Some (Inl e, demo_world [dentist]))
   \<and> map_option fst (react_loop demo_env (scripted dentist_script)
        [UserText (question dentist_question)]
        (call_turn (lit ''SELECT * FROM memory WHERE memory MATCH 'dentist' LIMIT 5''))
        (demo_world [dentist]))
     = Some (Inr (Answer (Some (lit ''You have a dentist appointment next Tuesday.''))))"
proof -
  let ?q = "call_part [(lit ''sql_query'', JStr (lit ''SELECT * FROM memory''))]"
  let ?p = "text_part (lit ''Let me look.'')"
  let ?ct = "\<lparr> parts = Some [?p, ?q] \<rparr>"
  let ?c = "\<lparr> cand_content = Some ?ct \<rparr>"
  let ?r = "turn [?p, ?q] (Some (lit ''Let me look.''))"
  have a: "candidates ?r = Some (?c # []) \<and> cand_content ?c = Some ?ct
      \<and> parts ?ct = Some (?p # [?q]) \<and> part_function_call ?p = None"
    by (simp add: turn_def text_part_def)
  have t: "response_text ?r = Some (lit ''Let me look.'')" by (simp add: turn_def)
  let ?fc = "\<lparr> fc_name = Some (lit ''execute_sql''), fc_args = Some [] \<rparr>"
  let ?ct' = "\<lparr> parts = Some [call_part []] \<rparr>"
  let ?c' = "\<lparr> cand_content = Some ?ct' \<rparr>"
  let ?m = "turn [call_part []] None"
  have b: "candidates ?m = Some (?c' # []) \<and> cand_content ?c' = Some ?ct'
      \<and> parts ?ct' = Some (call_part [] # []) \<and> part_function_call (call_part []) = Some ?fc
      \<and> (fc_args ?fc = None
         \<or> (\<exists>args. fc_args ?fc = Some args \<and> map_of args (lit ''sql_query'') = None))"
    by (simp add: turn_def call_part_def)
  have 1: "react_loop demo_env (scripted []) [UserText (question dentist_question)] ?r (demo_world [dentist])
     = Some (Inr (Answer (Some (lit ''Let me look.''))), demo_world [dentist])"
    using loop_reads_first_part_only
      [where r = ?r and c = ?c and cs = "[]" and ct = ?ct and p = ?p and ps = "[?q]"
         and E = demo_env and chat = "scripted []" and h = "[UserText (question dentist_question)]"
         and w = "demo_world [dentist]", THEN conjunct1, rule_format, OF a]
    by (simp add: t)
  have 2: "\<exists>e. react_loop demo_env (scripted []) [UserText (question dentist_question)] ?m (demo_world [dentist])
        = Some (Inl e, demo_world [dentist])"
    using loop_reads_first_part_only
      [where r = ?m and c = ?c' and cs = "[]" and ct = ?ct' and p = "call_part []" and ps = "[]"
         and E = demo_env and chat = "scripted []" and h = "[UserText (question dentist_question)]"
         and w = "demo_world [dentist]" and fc = ?fc,
         THEN conjunct2, THEN conjunct2, rule_format, OF b]
    by simp
  let ?sq = "lit ''SELECT * FROM memory WHERE memory MATCH 'dentist' LIMIT 5''"
  let ?sargs = "[(lit ''sql_query'', JStr ?sq)]"
  let ?sfc = "\<lparr> fc_name = Some (lit ''execute_sql''), fc_args = Some ?sargs \<rparr>"
  let ?sct = "\<lparr> parts = Some [call_part ?sargs] \<rparr>"
  let ?sc = "\<lparr> cand_content = Some ?sct \<rparr>"
  let ?sh = "[UserText (question dentist_question)]"
  have sb: "candidates (call_turn ?sq) = Some (?sc # []) \<and> cand_content ?sc = Some ?sct
      \<and> parts ?sct = Some (call_part ?sargs # []) \<and> part_function_call (call_part ?sargs) = Some ?sfc
      \<and> fc_args ?sfc = Some ?sargs \<and> map_of ?sargs (lit ''sql_query'') = Some (JStr ?sq)"
    by (simp add: call_turn_def turn_def call_part_def)
  have r: "map_option fst
      (case execute_sql demo_env (JStr ?sq) (demo_world [dentist]\<lparr>stdout := stdout (demo_world [dentist]) @ [RunningSQL (JStr ?sq)]\<rparr>) of
         (result, w') \<Rightarrow>
           (case scripted dentist_script (?sh @ [FunctionResponse (lit ''execute_sql'') result]) of
              Inl e \<Rightarrow> Some (Inl e, w')
            | Inr r' \<Rightarrow>
                react_loop demo_env (scripted dentist_script) (?sh @ [FunctionResponse (lit ''execute_sql'') result]) r' w'))
     = Some (Inr (Answer (Some (lit ''You have a dentist appointment next Tuesday.''))))"
    by code_simp
  have 3: "map_option fst (react_loop demo_env (scripted dentist_script) ?sh (call_turn ?sq) (demo_world [dentist]))
     = Some (Inr (Answer (Some (lit ''You have a dentist appointment next Tuesday.''))))"
    using loop_reads_first_part_only
      [where r = "call_turn ?sq" and c = ?sc and cs = "[]" and ct = ?sct and p = "call_part ?sargs"
         and ps = "[]" and E = demo_env and chat = "scripted dentist_script" and h = ?sh
         and w = "demo_world [dentist]" and fc = ?sfc and args = ?sargs and v = "JStr ?sq",
         THEN conjunct2, THEN conjunct1, rule_format, OF sb] r
    by simp
  from 1 2 3 show ?thesis by simp
qed

end
